theory Spec2Isabelle
  imports Main
begin

section \<open>SPDX identifiers: \<open>buildIDString\<close> (pkg/spdx/spdx.go)\<close>

text \<open>
  Go strings are byte sequences; they are modelled as \<open>string\<close> (a list of 8-bit
  characters). The regular expression \<^verbatim>\<open>[^a-zA-Z0-9-.]+\<close> works on runes, but every
  byte of a rune beyond ASCII (and every byte of an invalid encoding) lies outside the
  legal class and is deleted, so deleting the illegal bytes one by one gives the same
  result.
\<close>

text \<open>The complement of the class of \<open>validIDCharsRe\<close>: letters, digits, hyphen, period.\<close>

definition validIDChar :: "char \<Rightarrow> bool" where
  "validIDChar c =
     (let n = (of_char c :: nat) in
        (97 \<le> n \<and> n \<le> 122) \<or> (65 \<le> n \<and> n \<le> 90) \<or> (48 \<le> n \<and> n \<le> 57)
        \<or> c = CHR ''-'' \<or> c = CHR ''.'')"

text \<open>
  \<open>strings.ReplaceAll(s, old, new)\<close> for a pattern \<open>old\<close> of one ASCII character, the
  only way the source calls it.
\<close>

definition ReplaceAll :: "string \<Rightarrow> char \<Rightarrow> string \<Rightarrow> string" where
  "ReplaceAll s old new = concat (map (\<lambda>c. if c = old then new else [c]) s)"

text \<open>
  \<open>reg.ReplaceAllString(s, "")\<close> with \<open>reg = regexp.MustCompile(validIDCharsRe)\<close>: every
  maximal run of illegal characters is replaced by the empty string.
\<close>

definition ReplaceAllString_empty :: "string \<Rightarrow> string" where
  "ReplaceAllString_empty s = filter validIDChar s"

text \<open>\<open>strings.HasPrefix(s, prefix)\<close>.\<close>

definition HasPrefix :: "string \<Rightarrow> string \<Rightarrow> bool" where
  "HasPrefix s p = (take (length p) s = p)"

text \<open>
  The body of the loop over the seeds, up to the test \<open>s != ""\<close>: the inner loop over
  \<open>[]string{"/", ":"}\<close>, then the regular expression.
\<close>

definition sanitizeSeed :: "string \<Rightarrow> string" where
  "sanitizeSeed s =
     ReplaceAllString_empty (fold (\<lambda>r s. ReplaceAll s r ''-'') [CHR ''/'', CHR '':''] s)"

text \<open>
  The loop \<open>for _, s := range seeds\<close>, on the pair \<open>(validSeeds, numValidSeeds)\<close>.
  \<open>numValidSeeds\<close> is a Go \<open>int\<close>; it counts elements of a slice held in memory, so it
  cannot wrap, and is a \<open>nat\<close> here.
\<close>

fun seedLoop :: "string list \<Rightarrow> string list \<times> nat \<Rightarrow> string list \<times> nat" where
  "seedLoop [] acc = acc"
| "seedLoop (s # seeds) (validSeeds, numValidSeeds) =
     (let s' = sanitizeSeed s in
      if s' \<noteq> []
      then seedLoop seeds
             (validSeeds @ [s'],
              if \<not> HasPrefix s' ''SPDXRef-'' then numValidSeeds + 1 else numValidSeeds)
      else seedLoop seeds (validSeeds, numValidSeeds))"

text \<open>The loop \<open>for _, s := range validSeeds\<close> that builds \<open>id\<close>.\<close>

fun joinLoop :: "string list \<Rightarrow> string \<Rightarrow> string" where
  "joinLoop [] ident = ident"
| "joinLoop (s # ss) ident = joinLoop ss ((if ident \<noteq> [] then ident @ ''-'' else ident) @ s)"

text \<open>
  \<open>buildIDString(seeds...)\<close>. The first argument is the string that
  \<open>uuid.New().String()\<close> returns in this call: the function's only source of randomness,
  read only when \<open>numValidSeeds == 0\<close>.
\<close>

definition buildIDString :: "string \<Rightarrow> string list \<Rightarrow> string" where
  "buildIDString uuid seeds =
     (case seedLoop seeds ([], 0) of
        (validSeeds, numValidSeeds) \<Rightarrow>
          joinLoop (if numValidSeeds = 0 then validSeeds @ [uuid] else validSeeds) [])"

text \<open>
  The form of a UUID string of github.com/google/uuid (a library outside the
  repository): 36 characters, each a lower-case hexadecimal digit or a hyphen.
\<close>

definition isHexOrHyphen :: "char \<Rightarrow> bool" where
  "isHexOrHyphen c =
     (let n = (of_char c :: nat) in
        (48 \<le> n \<and> n \<le> 57) \<or> (97 \<le> n \<and> n \<le> 102) \<or> c = CHR ''-'')"

definition uuidString :: "string \<Rightarrow> bool" where
  "uuidString u = (length u = 36 \<and> list_all isHexOrHyphen u)"

text \<open>
  The seeds that survive sanitisation, and the spec's "meaningful" ones among them:
  non-empty after sanitisation and without the prefix \<open>SPDXRef-\<close>.
\<close>

definition survivingSeeds :: "string list \<Rightarrow> string list" where
  "survivingSeeds seeds = filter (\<lambda>s. s \<noteq> []) (map sanitizeSeed seeds)"

definition meaningfulSeeds :: "string list \<Rightarrow> string list" where
  "meaningfulSeeds seeds =
     filter (\<lambda>s. s \<noteq> [] \<and> \<not> HasPrefix s ''SPDXRef-'') (map sanitizeSeed seeds)"

subsection \<open>Sample inputs\<close>

definition sampleUUID1 :: string where
  "sampleUUID1 = ''123e4567-e89b-42d3-a456-426614174000''"

definition sampleUUID2 :: string where
  "sampleUUID2 = ''9b2d1c3e-0f4a-4b6c-8d7e-5a1b2c3d4e5f''"

section \<open>Packages from directories: \<open>PackageFromDirectory\<close> (pkg/spdx/spdx.go)\<close>

subsection \<open>Errors\<close>

text \<open>
  Go's \<open>error\<close> values: \<open>errors.New(msg)\<close>, \<open>errors.Wrap(err, msg)\<close> (also
  \<open>Wrapf\<close>, with the message formatted), and the aggregate that the throttler's
  \<open>Err()\<close> returns for the errors given to \<open>Done\<close>. A nil error is \<open>None\<close> of
  \<open>error option\<close>.
\<close>

datatype error = New string | Wrap error string | MultiError "error list"

subsection \<open>Data\<close>

definition NONE :: string where
  "NONE = ''NONE''"

definition NOASSERTION :: string where
  "NOASSERTION = ''NOASSERTION''"

text \<open>
  Modelled from the spec: the constant \<open>GoModFileName\<close>, declared outside src/; the
  dependency manifest of a Go module is the file go.mod.
\<close>

definition GoModFileName :: string where
  "GoModFileName = ''go.mod''"

text \<open>
  Modelled from the spec: the constant \<open>spdx.GENERATED_FROM\<close>, declared outside src/;
  the spec's relationship taxonomy names the type \<open>GENERATED_FROM\<close>.
\<close>

definition GENERATED_FROM :: string where
  "GENERATED_FROM = ''GENERATED_FROM''"

record Options =
  AnalyzeLayers :: bool
  NoGitignore :: bool
  ProcessGoModules :: bool
  OnlyDirectDeps :: bool
  ScanLicenses :: bool
  LicenseCacheDir :: string
  LicenseData :: string
  IgnorePatterns :: "string list"

text \<open>
  The struct types \<open>License\<close>, \<open>Relationship\<close>, \<open>File\<close> and \<open>Package\<close> are declared
  outside src/; the fields below are the ones the source under src/ reads and writes.
  \<open>File\<close> and \<open>Package\<close> both have fields \<open>Name\<close>, \<open>LicenseConcluded\<close> and a list of
  relationships: they carry the type's name as a prefix here.
\<close>

record License =
  LicenseID :: string

record Relationship =
  FullRender :: bool
  PeerReference :: string
  PeerExtReference :: string
  Comment :: string
  Type :: string

record File =
  FileName :: string
  SourceFile :: string
  File_Name :: string
  LicenseInfoInFile :: string
  File_LicenseConcluded :: string
  Checksum :: "(string \<times> string) list"
  File_Relationships :: "Relationship list"

datatype Package = Package
  (Package_Name: string)
  (FilesAnalyzed: bool)
  (Package_LicenseConcluded: string)
  (Files: "File list")
  (Dependencies: "Package list")
  (Package_Relationships: "Relationship list")

text \<open>Assignments to the fields of a package (\<open>pkg.Name = ...\<close> and so on).\<close>

fun set_Package_Name :: "string \<Rightarrow> Package \<Rightarrow> Package" where
  "set_Package_Name n (Package _ fa lc fs ds rs) = Package n fa lc fs ds rs"

fun set_FilesAnalyzed :: "bool \<Rightarrow> Package \<Rightarrow> Package" where
  "set_FilesAnalyzed fa (Package n _ lc fs ds rs) = Package n fa lc fs ds rs"

fun set_Package_LicenseConcluded :: "string \<Rightarrow> Package \<Rightarrow> Package" where
  "set_Package_LicenseConcluded lc (Package n fa _ fs ds rs) = Package n fa lc fs ds rs"

fun set_Files :: "File list \<Rightarrow> Package \<Rightarrow> Package" where
  "set_Files fs (Package n fa lc _ ds rs) = Package n fa lc fs ds rs"

fun set_Dependencies :: "Package list \<Rightarrow> Package \<Rightarrow> Package" where
  "set_Dependencies ds (Package n fa lc fs _ rs) = Package n fa lc fs ds rs"

fun set_Package_Relationships :: "Relationship list \<Rightarrow> Package \<Rightarrow> Package" where
  "set_Package_Relationships rs (Package n fa lc fs ds _) = Package n fa lc fs ds rs"

subsection \<open>What the code calls\<close>

text \<open>
  A Go function returning \<open>(value, error)\<close> is a function into \<open>error + value\<close>:
  \<open>Inl e\<close> is a non-nil error, \<open>Inr v\<close> a nil error with the value. A \<open>*License\<close> that
  may be nil is a \<open>License option\<close>.
\<close>

text \<open>The license reader that \<open>impl.LicenseReader\<close> returns; the source calls its
  method \<open>LicenseFromFile\<close>.\<close>

record Reader =
  LicenseFromFile :: "string \<Rightarrow> error + License option"

type_synonym Pattern = string

text \<open>
  The interface \<open>spdxImplementation\<close> behind \<open>spdx.impl\<close> (replaceable through
  \<open>SetImplementation\<close>), with the methods that \<open>PackageFromDirectory\<close> calls.
\<close>

record spdxImplementation =
  GetDirectoryTree :: "string \<Rightarrow> error + string list"
  LicenseReader :: "Options \<Rightarrow> error + Reader"
  GetDirectoryLicense :: "Reader \<Rightarrow> string \<Rightarrow> Options \<Rightarrow> error + License option"
  impl_IgnorePatterns :: "string \<Rightarrow> string list \<Rightarrow> bool \<Rightarrow> error + Pattern list"
  ApplyIgnorePatterns :: "string list \<Rightarrow> Pattern list \<Rightarrow> string list"
  GetGoDependencies :: "string \<Rightarrow> Options \<Rightarrow> error + Package list"

record SPDX =
  impl :: spdxImplementation
  options :: Options

text \<open>
  The world outside the functions under src/: the standard library's path functions
  (\<open>filepath.Abs\<close>, \<open>filepath.Base\<close>, \<open>filepath.Join\<close>, \<open>os.TempDir\<close>), \<open>util.Exists\<close>,
  the string \<open>uuid.NewString()\<close> returns, the file that \<open>NewFile()\<close> returns, the
  checksums of the file at a path (or the error of reading it), and the errors with
  which the methods \<open>AddFile\<close> and \<open>AddDependency\<close> of a package refuse an argument.
\<close>

record World =
  Abs :: "string \<Rightarrow> error + string"
  Base :: "string \<Rightarrow> string"
  Join :: "string list \<Rightarrow> string"
  TempDir :: string
  Exists :: "string \<Rightarrow> bool"
  NewString :: string
  NewFile :: File
  checksums :: "string \<Rightarrow> error + (string \<times> string) list"
  AddFile_error :: "Package \<Rightarrow> File \<Rightarrow> error option"
  AddDependency_error :: "Package \<Rightarrow> Package \<Rightarrow> error option"

text \<open>\<open>defaultSPDXOptions\<close>, the options of \<open>NewSPDX()\<close>; fields the literal leaves out
  have Go's zero value.\<close>

definition defaultSPDXOptions :: "World \<Rightarrow> Options" where
  "defaultSPDXOptions w =
     \<lparr>AnalyzeLayers = True, NoGitignore = False, ProcessGoModules = True,
      OnlyDirectDeps = False, ScanLicenses = True,
      LicenseCacheDir = Join w [TempDir w, ''spdx/downloadCache''],
      LicenseData = Join w [TempDir w, ''spdx/licenses''],
      IgnorePatterns = []\<rparr>"

text \<open>
  Modelled from the spec: \<open>NewPackage\<close> (package.go is not under src/). A package is
  created during a construction call and owns its files, dependencies and
  relationships: a new one has none yet. \<open>PackageFromDirectory\<close> assigns the other
  three fields itself.
\<close>

definition NewPackage :: Package where
  "NewPackage = Package [] False [] [] [] []"

text \<open>
  Modelled from the spec: the method \<open>ReadSourceFile\<close> of a file (file.go is not under
  src/). The content scanner computes the checksums by reading the full content of the
  file; a failure of that is a hard error for the file.
\<close>

definition ReadSourceFile :: "World \<Rightarrow> File \<Rightarrow> string \<Rightarrow> error + File" where
  "ReadSourceFile w f path =
     (case checksums w path of
        Inl e \<Rightarrow> Inl e
      | Inr cs \<Rightarrow> Inr (f\<lparr>Checksum := cs\<rparr>))"

text \<open>
  Modelled from the spec: the method \<open>AddFile\<close> of a package (package.go is not under
  src/). A completed scan's file is inserted into the file collection of the owning
  package. The call site handles an error; when the method returns one is left to the
  world.
\<close>

definition AddFile :: "World \<Rightarrow> Package \<Rightarrow> File \<Rightarrow> error + Package" where
  "AddFile w p f =
     (case AddFile_error w p f of
        Some e \<Rightarrow> Inl e
      | None \<Rightarrow> Inr (set_Files (Files p @ [f]) p))"

text \<open>
  Modelled from the spec: the method \<open>AddDependency\<close> of a package (package.go is not
  under src/). A resolved dependency becomes a sub-package linked to the parent package
  (the \<open>DEPENDS_ON\<close> edges of the parent). The call site handles an error; when the
  method returns one is left to the world.
\<close>

definition AddDependency :: "World \<Rightarrow> Package \<Rightarrow> Package \<Rightarrow> error + Package" where
  "AddDependency w p dep =
     (case AddDependency_error w p dep of
        Some e \<Rightarrow> Inl e
      | None \<Rightarrow> Inr (set_Dependencies (Dependencies p @ [dep]) p))"

text \<open>\<open>strings.TrimPrefix(s, prefix)\<close>, and \<open>filepath.Separator\<close> on the platforms the
  release tooling runs on.\<close>

definition TrimPrefix :: "string \<Rightarrow> string \<Rightarrow> string" where
  "TrimPrefix s p = (if HasPrefix s p then drop (length p) s else s)"

definition Separator :: char where
  "Separator = CHR ''/''"

subsection \<open>The throttler\<close>

text \<open>
  github.com/nozzle/throttler is a library outside the repository. Of its state the
  model keeps the two arguments of \<open>throttler.New\<close>, the number of calls of \<open>Done\<close> and
  the errors given to \<open>Done\<close>: \<open>Done(err)\<close> reports a finished job and records \<open>err\<close>
  when it is not nil; \<open>Err()\<close> is nil when no error was recorded, and otherwise an error
  that stands for all the recorded ones. \<open>Throttle()\<close> only blocks the dispatching
  loop, so it does not change this state.
\<close>

record Throttler =
  maxWorkers :: nat
  totalJobs :: nat
  doneCalls :: nat
  errs :: "error list"

definition throttler_New :: "nat \<Rightarrow> nat \<Rightarrow> Throttler" where
  "throttler_New maxW jobs =
     \<lparr>maxWorkers = maxW, totalJobs = jobs, doneCalls = 0, errs = []\<rparr>"

definition Done :: "Throttler \<Rightarrow> error option \<Rightarrow> Throttler" where
  "Done t e =
     (case e of
        None \<Rightarrow> t\<lparr>doneCalls := doneCalls t + 1\<rparr>
      | Some x \<Rightarrow> t\<lparr>doneCalls := doneCalls t + 1, errs := errs t @ [x]\<rparr>)"

definition Throttle :: "Throttler \<Rightarrow> Throttler" where
  "Throttle t = t"

definition Err :: "Throttler \<Rightarrow> error option" where
  "Err t = (if errs t = [] then None else Some (MultiError (errs t)))"

subsection \<open>Scanning the files\<close>

text \<open>
  What the goroutines of one call share: the named result \<open>err\<close> of
  \<open>PackageFromDirectory\<close> (the closure \<open>processDirectoryFile\<close> assigns to the variable of
  the enclosing function), the package behind the pointer \<open>pkg\<close>, and the throttler
  \<open>t\<close>. \<open>dispatched\<close> is a ghost variable: the paths for which the statement
  \<open>go processDirectoryFile(path, pkg)\<close> has been executed, in order. The variable \<open>lic\<close>
  is shared as well; a goroutine that runs without interruption assigns it before
  reading it, so \<open>scanFile\<close> binds it locally, and the interleaved runs further down
  keep it in the state.
\<close>

record ScanState =
  err :: "error option"
  pkg :: Package
  t :: Throttler
  dispatched :: "string list"

text \<open>
  The body of \<open>processDirectoryFile\<close>, after the \<open>defer\<close> statement and up to the
  return.
\<close>

definition scanFile ::
  "World \<Rightarrow> Reader \<Rightarrow> string \<Rightarrow> string \<Rightarrow> string \<Rightarrow> ScanState \<Rightarrow> ScanState" where
  "scanFile w reader dirPath licenseTag path st =
     (let f = (NewFile w)\<lparr>FileName := path, SourceFile := Join w [dirPath, path]\<rparr> in
      case LicenseFromFile reader (SourceFile f) of
        Inl e \<Rightarrow> st\<lparr>err := Some (Wrap e ''scanning file for license'')\<rparr>
      | Inr lic \<Rightarrow>
          (let st = st\<lparr>err := None\<rparr>;
               f = f\<lparr>LicenseInfoInFile := NONE\<rparr>;
               f = (case lic of
                      None \<Rightarrow> f\<lparr>File_LicenseConcluded := licenseTag\<rparr>
                    | Some l \<Rightarrow> f\<lparr>LicenseInfoInFile := LicenseID l\<rparr>)
           in case ReadSourceFile w f (Join w [dirPath, path]) of
                Inl e \<Rightarrow> st\<lparr>err := Some (Wrap e ''checksumming file'')\<rparr>
              | Inr f \<Rightarrow>
                  (let f = f\<lparr>File_Name := TrimPrefix path (dirPath @ [Separator])\<rparr> in
                   case AddFile w (pkg st) f of
                     Inl e \<Rightarrow>
                       st\<lparr>err := Some (Wrap e (''adding '' @ path
                                                @ '' as file to the spdx package''))\<rparr>
                   | Inr p \<Rightarrow> st\<lparr>err := None, pkg := p\<rparr>)))"

text \<open>
  \<open>processDirectoryFile(path, pkg)\<close>. Its first statement is \<open>defer t.Done(err)\<close>: Go
  evaluates the arguments of a deferred call when the \<open>defer\<close> statement executes, so
  the deferred call receives the value that the shared \<open>err\<close> has when the goroutine
  starts, and runs when the body has returned.
\<close>

definition processDirectoryFile ::
  "World \<Rightarrow> Reader \<Rightarrow> string \<Rightarrow> string \<Rightarrow> string \<Rightarrow> ScanState \<Rightarrow> ScanState" where
  "processDirectoryFile w reader dirPath licenseTag path st =
     (let deferred = err st;
          st = scanFile w reader dirPath licenseTag path st
      in st\<lparr>t := Done (t st) deferred\<rparr>)"

text \<open>
  The loop \<open>for _, path := range fileList\<close>, with \<open>go processDirectoryFile(path, pkg)\<close>
  and \<open>t.Throttle()\<close>. The goroutines run one after the other, each to its end, in
  the order of dispatch: one of the schedules Go allows, and for a list of one file the
  only one, since no other goroutine exists and the dispatching goroutine does not
  touch the shared variables while it waits in \<open>Throttle\<close>. The loop has no exit but
  the end of the list.
\<close>

fun scanLoop ::
  "World \<Rightarrow> Reader \<Rightarrow> string \<Rightarrow> string \<Rightarrow> string list \<Rightarrow> ScanState \<Rightarrow> ScanState" where
  "scanLoop w reader dirPath licenseTag [] st = st"
| "scanLoop w reader dirPath licenseTag (path # fileList) st =
     (let st = st\<lparr>dispatched := dispatched st @ [path]\<rparr>;
          st = processDirectoryFile w reader dirPath licenseTag path st;
          st = st\<lparr>t := Throttle (t st)\<rparr>
      in scanLoop w reader dirPath licenseTag fileList st)"

text \<open>The loop \<open>for _, dep := range deps\<close> over \<open>pkg.AddDependency(dep)\<close>; it returns at
  the first error.\<close>

fun addDependencies :: "World \<Rightarrow> Package \<Rightarrow> Package list \<Rightarrow> error + Package" where
  "addDependencies w p [] = Inr p"
| "addDependencies w p (dep # deps) =
     (case AddDependency w p dep of
        Inl e \<Rightarrow> Inl (Wrap e ''adding go dependency'')
      | Inr p' \<Rightarrow> addDependencies w p' deps)"

text \<open>
  The second part of \<open>PackageFromDirectory\<close>, from the test for the go.mod file to the
  final return; \<open>dirPath\<close> is the absolute path, \<open>p\<close> the package after the scan.
\<close>

definition processGoModule ::
  "SPDX \<Rightarrow> World \<Rightarrow> string \<Rightarrow> Package \<Rightarrow> Package option \<times> error option" where
  "processGoModule spdx w dirPath p =
     (if Exists w (Join w [dirPath, GoModFileName]) \<and> ProcessGoModules (options spdx)
      then
        (case GetGoDependencies (impl spdx) dirPath (options spdx) of
           Inl e \<Rightarrow> (None, Some (Wrap e ''scanning go packages''))
         | Inr deps \<Rightarrow>
             (case addDependencies w p deps of
                Inl e \<Rightarrow> (None, Some e)
              | Inr p' \<Rightarrow> (Some p', None)))
      else (Some p, None))"

text \<open>
  The package as \<open>PackageFromDirectory\<close> sets it up before the scan: \<open>NewPackage()\<close>,
  then the assignments to \<open>FilesAnalyzed\<close>, \<open>Name\<close> and \<open>LicenseConcluded\<close>.
\<close>

definition initialPackage :: "World \<Rightarrow> string \<Rightarrow> string \<Rightarrow> Package" where
  "initialPackage w dirPath licenseTag =
     (let p = set_FilesAnalyzed True NewPackage;
          p = set_Package_Name (Base w dirPath) p;
          p = (if Package_Name p = [] then set_Package_Name (NewString w) p else p)
      in set_Package_LicenseConcluded licenseTag p)"

text \<open>
  The first part of \<open>PackageFromDirectory\<close>, up to the test of \<open>t.Err()\<close>: the state of
  the scan when the dispatching loop has ended and all goroutines are done, with the
  absolute path, the license reader and the license tag of the directory; or the error
  with which the call has returned before the scan.
\<close>

definition scanDirectory ::
  "SPDX \<Rightarrow> World \<Rightarrow> string \<Rightarrow> error + (string \<times> Reader \<times> string \<times> ScanState)" where
  "scanDirectory spdx w dirPath =
     (case Abs w dirPath of
        Inl e \<Rightarrow> Inl (Wrap e ''getting absolute directory path'')
      | Inr dirPath \<Rightarrow>
     (case GetDirectoryTree (impl spdx) dirPath of
        Inl e \<Rightarrow> Inl (Wrap e ''building directory tree'')
      | Inr fileList \<Rightarrow>
     (case LicenseReader (impl spdx) (options spdx) of
        Inl e \<Rightarrow> Inl (Wrap e ''creating license reader'')
      | Inr reader \<Rightarrow>
     (case GetDirectoryLicense (impl spdx) reader dirPath (options spdx) of
        Inl e \<Rightarrow> Inl (Wrap e ''scanning directory for licenses'')
      | Inr lic \<Rightarrow>
     (let licenseTag = (case lic of None \<Rightarrow> [] | Some l \<Rightarrow> LicenseID l) in
      case impl_IgnorePatterns (impl spdx) dirPath (IgnorePatterns (options spdx))
             (NoGitignore (options spdx)) of
        Inl e \<Rightarrow> Inl (Wrap e ''building ignore patterns list'')
      | Inr patterns \<Rightarrow>
     (let fileList = ApplyIgnorePatterns (impl spdx) fileList patterns;
          st = \<lparr>err = None, pkg = initialPackage w dirPath licenseTag,
                t = throttler_New 5 (length fileList), dispatched = []\<rparr>
      in Inr (dirPath, reader, licenseTag,
              scanLoop w reader dirPath licenseTag fileList st)))))))"

text \<open>
  \<open>PackageFromDirectory(dirPath)\<close>: the pair of its results \<open>(pkg, err)\<close>, a nil pointer
  and a nil error being \<open>None\<close>.
\<close>

definition PackageFromDirectory ::
  "SPDX \<Rightarrow> World \<Rightarrow> string \<Rightarrow> Package option \<times> error option" where
  "PackageFromDirectory spdx w dirPath =
     (case scanDirectory spdx w dirPath of
        Inl e \<Rightarrow> (None, Some e)
      | Inr (dirPath, reader, licenseTag, st) \<Rightarrow>
          (case Err (t st) of
             Some e \<Rightarrow> (None, Some e)
           | None \<Rightarrow> processGoModule spdx w dirPath (pkg st)))"

subsection \<open>Interleaved goroutines\<close>

text \<open>
  The goroutines of one call run concurrently, and the closure reads and writes the
  variables \<open>lic\<close> and \<open>err\<close> of the enclosing function: line 191 assigns both
  (\<open>lic, err = reader.LicenseFromFile(f.SourceFile)\<close>), the lines after it read them.
  To follow runs in which goroutines interleave, the closure is cut at that line. A
  goroutine that has executed the first part holds its locals: the path, the file \<open>f\<close>
  and the evaluated argument of the deferred call \<open>t.Done(err)\<close>.
\<close>

record Goroutine =
  g_path :: string
  g_file :: File
  g_deferred :: "error option"
  g_returned :: bool

text \<open>
  The state of the call during the scan: the shared variables of \<open>ScanState\<close>, the shared
  variable \<open>lic\<close>, the paths the loop has not dispatched yet, and the goroutines started
  so far, in the order of dispatch.
\<close>

record Interleaved =
  shared :: ScanState
  shared_lic :: "License option"
  pending :: "string list"
  goroutines :: "Goroutine list"

text \<open>
  The first part of \<open>processDirectoryFile\<close>: the \<open>defer\<close> statement, the new file, and
  the assignment of line 191 to the shared \<open>lic\<close> and \<open>err\<close>. With an error the reader
  returns a nil license.
\<close>

definition startFile ::
  "World \<Rightarrow> Reader \<Rightarrow> string \<Rightarrow> string \<Rightarrow> Interleaved \<Rightarrow> Goroutine \<times> Interleaved" where
  "startFile w reader dirPath path s =
     (let deferred = err (shared s);
          f = (NewFile w)\<lparr>FileName := path, SourceFile := Join w [dirPath, path]\<rparr>;
          g = \<lparr>g_path = path, g_file = f, g_deferred = deferred, g_returned = False\<rparr>
      in case LicenseFromFile reader (SourceFile f) of
           Inl e \<Rightarrow> (g, s\<lparr>shared := (shared s)\<lparr>err := Some e\<rparr>, shared_lic := None\<rparr>)
         | Inr l \<Rightarrow> (g, s\<lparr>shared := (shared s)\<lparr>err := None\<rparr>, shared_lic := l\<rparr>))"

text \<open>
  The second part of \<open>processDirectoryFile\<close>: from the test \<open>err != nil\<close> of line 192 to
  the return, then the deferred call. It reads the shared \<open>err\<close> and \<open>lic\<close> as they are
  now.
\<close>

definition finishFile ::
  "World \<Rightarrow> string \<Rightarrow> string \<Rightarrow> Goroutine \<Rightarrow> Interleaved \<Rightarrow> Interleaved" where
  "finishFile w dirPath licenseTag g s =
     (let st = shared s;
          st =
            (case err st of
               Some e \<Rightarrow> st\<lparr>err := Some (Wrap e ''scanning file for license'')\<rparr>
             | None \<Rightarrow>
                 (let f = (g_file g)\<lparr>LicenseInfoInFile := NONE\<rparr>;
                      f = (case shared_lic s of
                             None \<Rightarrow> f\<lparr>File_LicenseConcluded := licenseTag\<rparr>
                           | Some l \<Rightarrow> f\<lparr>LicenseInfoInFile := LicenseID l\<rparr>)
                  in case ReadSourceFile w f (Join w [dirPath, g_path g]) of
                       Inl e \<Rightarrow> st\<lparr>err := Some (Wrap e ''checksumming file'')\<rparr>
                     | Inr f \<Rightarrow>
                         (let f = f\<lparr>File_Name :=
                                      TrimPrefix (g_path g) (dirPath @ [Separator])\<rparr> in
                          case AddFile w (pkg st) f of
                            Inl e \<Rightarrow>
                              st\<lparr>err := Some (Wrap e (''adding '' @ g_path g
                                                       @ '' as file to the spdx package''))\<rparr>
                          | Inr p \<Rightarrow> st\<lparr>err := None, pkg := p\<rparr>)))
      in s\<lparr>shared := st\<lparr>t := Done (t st) (g_deferred g)\<rparr>\<rparr>)"

text \<open>
  The events of a run: the loop dispatches the next path and its goroutine runs its
  first part, or the goroutine with the given number (in the order of dispatch) runs its
  second part and returns. A schedule is the list of the events of a run.
\<close>

datatype event = Dispatch | Resume nat

definition running :: "Interleaved \<Rightarrow> nat" where
  "running s = length (filter (\<lambda>g. \<not> g_returned g) (goroutines s))"

text \<open>
  One event; \<open>None\<close> when the event cannot happen in the state. The loop dispatches
  only while fewer than \<open>maxWorkers\<close> goroutines have not returned: \<open>Throttle\<close> blocks it
  otherwise.
\<close>

fun stepEvent ::
  "World \<Rightarrow> Reader \<Rightarrow> string \<Rightarrow> string \<Rightarrow> event \<Rightarrow> Interleaved \<Rightarrow> Interleaved option" where
  "stepEvent w reader dirPath licenseTag Dispatch s =
     (case pending s of
        [] \<Rightarrow> None
      | path # rest \<Rightarrow>
          if maxWorkers (t (shared s)) \<le> running s then None
          else
            (let s = s\<lparr>shared := (shared s)\<lparr>dispatched := dispatched (shared s) @ [path]\<rparr>,
                       pending := rest\<rparr>
             in case startFile w reader dirPath path s of
                  (g, s) \<Rightarrow> Some (s\<lparr>goroutines := goroutines s @ [g]\<rparr>)))"
| "stepEvent w reader dirPath licenseTag (Resume i) s =
     (if i < length (goroutines s) \<and> \<not> g_returned (goroutines s ! i)
      then
        (let g = goroutines s ! i;
             s = finishFile w dirPath licenseTag g s
         in Some (s\<lparr>goroutines := (goroutines s)[i := g\<lparr>g_returned := True\<rparr>]\<rparr>))
      else None)"

text \<open>
  A whole schedule; the run is complete when every path has been dispatched and every
  goroutine has returned, which is when \<open>Throttle\<close> lets the loop end.
\<close>

fun runEvents ::
  "World \<Rightarrow> Reader \<Rightarrow> string \<Rightarrow> string \<Rightarrow> event list \<Rightarrow> Interleaved \<Rightarrow> Interleaved option"
  where
  "runEvents w reader dirPath licenseTag [] s =
     (if pending s = [] \<and> running s = 0 then Some s else None)"
| "runEvents w reader dirPath licenseTag (e # es) s =
     (case stepEvent w reader dirPath licenseTag e s of
        None \<Rightarrow> None
      | Some s' \<Rightarrow> runEvents w reader dirPath licenseTag es s')"

text \<open>The schedule of \<open>scanLoop\<close>: every goroutine returns before the next is dispatched.\<close>

fun inOrder :: "nat \<Rightarrow> nat \<Rightarrow> event list" where
  "inOrder k 0 = []"
| "inOrder k (Suc n) = Dispatch # Resume k # inOrder (Suc k) n"

text \<open>
  \<open>PackageFromDirectory\<close> under a schedule of its goroutines (chosen from the list of
  the files to scan): the same statements as in \<open>scanDirectory\<close> and
  \<open>PackageFromDirectory\<close>, with the events of the schedule in the place of \<open>scanLoop\<close>.
  The result is \<open>None\<close> when the schedule is not a complete run for the files.
\<close>

definition PackageFromDirectoryScheduled ::
  "SPDX \<Rightarrow> World \<Rightarrow> (string list \<Rightarrow> event list) \<Rightarrow> string
     \<Rightarrow> (Package option \<times> error option) option" where
  "PackageFromDirectoryScheduled spdx w schedule dirPath =
     (case Abs w dirPath of
        Inl e \<Rightarrow> Some (None, Some (Wrap e ''getting absolute directory path''))
      | Inr dirPath \<Rightarrow>
     (case GetDirectoryTree (impl spdx) dirPath of
        Inl e \<Rightarrow> Some (None, Some (Wrap e ''building directory tree''))
      | Inr fileList \<Rightarrow>
     (case LicenseReader (impl spdx) (options spdx) of
        Inl e \<Rightarrow> Some (None, Some (Wrap e ''creating license reader''))
      | Inr reader \<Rightarrow>
     (case GetDirectoryLicense (impl spdx) reader dirPath (options spdx) of
        Inl e \<Rightarrow> Some (None, Some (Wrap e ''scanning directory for licenses''))
      | Inr lic \<Rightarrow>
     (let licenseTag = (case lic of None \<Rightarrow> [] | Some l \<Rightarrow> LicenseID l) in
      case impl_IgnorePatterns (impl spdx) dirPath (IgnorePatterns (options spdx))
             (NoGitignore (options spdx)) of
        Inl e \<Rightarrow> Some (None, Some (Wrap e ''building ignore patterns list''))
      | Inr patterns \<Rightarrow>
     (let fileList = ApplyIgnorePatterns (impl spdx) fileList patterns;
          s = \<lparr>shared = \<lparr>err = None, pkg = initialPackage w dirPath licenseTag,
                          t = throttler_New 5 (length fileList), dispatched = []\<rparr>,
               shared_lic = lic, pending = fileList, goroutines = []\<rparr>
      in case runEvents w reader dirPath licenseTag (schedule fileList) s of
           None \<Rightarrow> None
         | Some s \<Rightarrow>
             (case Err (t (shared s)) of
                Some e \<Rightarrow> Some (None, Some e)
              | None \<Rightarrow> Some (processGoModule spdx w dirPath (pkg (shared s))))))))))"

text \<open>\<open>FileFromPath(filePath)\<close>.\<close>

definition FileFromPath :: "World \<Rightarrow> string \<Rightarrow> File option \<times> error option" where
  "FileFromPath w filePath =
     (if \<not> Exists w filePath then (None, Some (New ''file does not exist''))
      else
        (case ReadSourceFile w (NewFile w) filePath of
           Inl e \<Rightarrow> (None, Some (Wrap e ''creating file from path''))
         | Inr f \<Rightarrow> (Some f, None)))"

section \<open>The artifacts document of a version: \<open>GenerateVersionArtifactsBOM\<close> (pkg/anago/stage.go)\<close>

text \<open>
  The struct types \<open>ExternalDocumentRef\<close>, \<open>Document\<close> and \<open>DocGenerateOptions\<close> are
  declared outside src/; the fields are the ones stage.go reads and writes, with the
  type's name as a prefix where another record has a field of the same name.
  \<open>doc.Packages\<close> holds pointers to packages (as \<open>*Package\<close> everywhere in the
  source), so a method called on the loop variable of \<open>range doc.Packages\<close> changes the
  package of the document.
\<close>

record ExternalDocumentRef =
  ID :: string
  URI :: string
  Checksums :: "(string \<times> string) list"

record Document =
  Document_Name :: string
  Namespace :: string
  Packages :: "Package list"
  Document_Files :: "File list"
  ExternalDocRefs :: "ExternalDocumentRef list"

record DocGenerateOptions =
  Gen_Name :: string
  Gen_AnalyseLayers :: bool
  Gen_OnlyDirectDeps :: bool
  Gen_License :: string
  Gen_Namespace :: string
  Gen_ScanLicenses :: bool
  Gen_Tarballs :: "string list"
  Gen_OutputFile :: string

text \<open>An element of the list that \<open>ListBinaries\<close> returns.\<close>

record Binary =
  Path :: string
  Platform :: string
  Arch :: string

text \<open>
  What \<open>defaultStageImpl\<close> calls outside src/: the three lists of build results of a
  version, the document builder (\<open>spdx.NewDocBuilder().Generate(options)\<close>), the error
  with which the method \<open>AddFile\<close> of a document refuses a file, the checksums that the
  method \<open>ReadSourceFile\<close> of an external document reference reads (or its error), the
  method \<open>Write\<close> of a document, and the constant \<open>LicenseIdentifier\<close>.
\<close>

record StageWorld =
  ListImageArchives :: "string \<Rightarrow> error + string list"
  ListBinaries :: "string \<Rightarrow> error + Binary list"
  ListTarballs :: "string \<Rightarrow> error + string list"
  Generate :: "DocGenerateOptions \<Rightarrow> error + Document"
  Document_AddFile_error :: "Document \<Rightarrow> File \<Rightarrow> error option"
  extRef_checksums :: "string \<Rightarrow> error + (string \<times> string) list"
  Write :: "Document \<Rightarrow> string \<Rightarrow> error option"
  LicenseIdentifier :: string

text \<open>
  Modelled from the spec: the method \<open>AddRelationship\<close> of a file and of a package
  (declared outside src/). The relationship lists of an element may be appended by
  later pipeline stages.
\<close>

definition File_AddRelationship :: "File \<Rightarrow> Relationship \<Rightarrow> File" where
  "File_AddRelationship f r = f\<lparr>File_Relationships := File_Relationships f @ [r]\<rparr>"

definition Package_AddRelationship :: "Package \<Rightarrow> Relationship \<Rightarrow> Package" where
  "Package_AddRelationship p r = set_Package_Relationships (Package_Relationships p @ [r]) p"

text \<open>
  Modelled from the spec: the method \<open>AddFile\<close> of a document (declared outside src/):
  a directly added file joins the files of the document. The call sites handle an
  error; when the method returns one is left to the world.
\<close>

definition Document_AddFile :: "StageWorld \<Rightarrow> Document \<Rightarrow> File \<Rightarrow> error + Document" where
  "Document_AddFile sw doc f =
     (case Document_AddFile_error sw doc f of
        Some e \<Rightarrow> Inl e
      | None \<Rightarrow> Inr (doc\<lparr>Document_Files := Document_Files doc @ [f]\<rparr>))"

text \<open>
  Modelled from the spec: the method \<open>ReadSourceFile\<close> of an external document
  reference (declared outside src/): it records the checksum of the referenced
  document.
\<close>

definition ExternalDocumentRef_ReadSourceFile ::
  "StageWorld \<Rightarrow> ExternalDocumentRef \<Rightarrow> string \<Rightarrow> error + ExternalDocumentRef" where
  "ExternalDocumentRef_ReadSourceFile sw r path =
     (case extRef_checksums sw path of
        Inl e \<Rightarrow> Inl e
      | Inr cs \<Rightarrow> Inr (r\<lparr>Checksums := cs\<rparr>))"

text \<open>
  The relationship literal that stage.go builds in three places:
  \<open>PeerExtReference\<close> is \<open>fmt.Sprintf("kubernetes-%s", version)\<close>.
\<close>

definition sourceRelationship :: "string \<Rightarrow> Relationship" where
  "sourceRelationship version =
     \<lparr>FullRender = False, PeerReference = ''SPDXRef-Package-kubernetes'',
      PeerExtReference = ''kubernetes-'' @ version, Comment = ''Source code'',
      Type = GENERATED_FROM\<rparr>"

text \<open>
  \<open>file.AddRelationship\<close> after \<open>sbom.AddFile(file)\<close>: \<open>file\<close> is a pointer, so the
  relationship reaches the file that the document now holds, the last one added.
\<close>

definition relateLastFile :: "Document \<Rightarrow> Relationship \<Rightarrow> Document" where
  "relateLastFile doc r =
     (case rev (Document_Files doc) of
        [] \<Rightarrow> doc
      | f # fs \<Rightarrow> doc\<lparr>Document_Files := rev fs @ [File_AddRelationship f r]\<rparr>)"

text \<open>The loop of \<open>AddBinariesToSBOM\<close> over the binaries.\<close>

fun addBinaries ::
  "StageWorld \<Rightarrow> World \<Rightarrow> string \<Rightarrow> Binary list \<Rightarrow> Document \<Rightarrow> error + Document" where
  "addBinaries sw w version [] sbom = Inr sbom"
| "addBinaries sw w version (bin # binaries) sbom =
     (case ReadSourceFile w (NewFile w) (Path bin) of
        Inl e \<Rightarrow> Inl (Wrap e (''reading binary sourcefile from '' @ Path bin))
      | Inr file \<Rightarrow>
          (let file = file\<lparr>File_Name :=
                             Join w [''bin'', Platform bin, Arch bin, Base w (Path bin)]\<rparr>;
               file = file\<lparr>FileName := File_Name file\<rparr>;
               file = file\<lparr>File_LicenseConcluded := LicenseIdentifier sw\<rparr>
           in case Document_AddFile sw sbom file of
                Inl e \<Rightarrow> Inl (Wrap e ''adding file to artifacts sbom'')
              | Inr sbom \<Rightarrow>
                  addBinaries sw w version binaries
                    (relateLastFile sbom (sourceRelationship version))))"

definition AddBinariesToSBOM ::
  "StageWorld \<Rightarrow> World \<Rightarrow> Document \<Rightarrow> string \<Rightarrow> error + Document" where
  "AddBinariesToSBOM sw w sbom version =
     (case ListBinaries sw version of
        Inl e \<Rightarrow> Inl (Wrap e (''Getting binaries list for '' @ version))
      | Inr binaries \<Rightarrow> addBinaries sw w version binaries sbom)"

text \<open>The loop of \<open>AddTarfilesToSBOM\<close> over the tarballs.\<close>

fun addTarfiles ::
  "StageWorld \<Rightarrow> World \<Rightarrow> string \<Rightarrow> string list \<Rightarrow> Document \<Rightarrow> error + Document" where
  "addTarfiles sw w version [] sbom = Inr sbom"
| "addTarfiles sw w version (tar # tarballs) sbom =
     (case ReadSourceFile w (NewFile w) tar of
        Inl e \<Rightarrow> Inl (Wrap e (''reading tarball sourcefile from '' @ tar))
      | Inr file \<Rightarrow>
          (let file = file\<lparr>File_Name := Base w tar\<rparr>;
               file = file\<lparr>File_LicenseConcluded := LicenseIdentifier sw\<rparr>;
               file = file\<lparr>FileName := Base w tar\<rparr>
           in case Document_AddFile sw sbom file of
                Inl e \<Rightarrow> Inl (Wrap e ''adding file to artifacts sbom'')
              | Inr sbom \<Rightarrow>
                  addTarfiles sw w version tarballs
                    (relateLastFile sbom (sourceRelationship version))))"

definition AddTarfilesToSBOM ::
  "StageWorld \<Rightarrow> World \<Rightarrow> Document \<Rightarrow> string \<Rightarrow> error + Document" where
  "AddTarfilesToSBOM sw w sbom version =
     (case ListTarballs sw version of
        Inl e \<Rightarrow> Inl (Wrap e (''listing release tarballs for '' @ version))
      | Inr tarballs \<Rightarrow> addTarfiles sw w version tarballs sbom)"

definition BuildBaseArtifactsSBOM :: "StageWorld \<Rightarrow> DocGenerateOptions \<Rightarrow> error + Document" where
  "BuildBaseArtifactsSBOM sw opts = Generate sw opts"

text \<open>The loop \<open>for _, pkg := range doc.Packages\<close> that stamps all packages.\<close>

definition stampPackages :: "string \<Rightarrow> Document \<Rightarrow> Document" where
  "stampPackages version doc =
     doc\<lparr>Packages :=
           map (\<lambda>p. Package_AddRelationship p (sourceRelationship version)) (Packages doc)\<rparr>"

text \<open>
  \<open>GenerateVersionArtifactsBOM(version)\<close>. The first component is the error it returns
  (\<open>None\<close> for nil). The second is a ghost value: the document and the path with which
  \<open>doc.Write\<close> is called, \<open>None\<close> when the call returns before it writes.
\<close>

definition GenerateVersionArtifactsBOM ::
  "StageWorld \<Rightarrow> World \<Rightarrow> string \<Rightarrow> error option \<times> (Document \<times> string) option" where
  "GenerateVersionArtifactsBOM sw w version =
     (case ListImageArchives sw version of
        Inl e \<Rightarrow> (Some (Wrap e ''getting artifacts list''), None)
      | Inr images \<Rightarrow>
     (case BuildBaseArtifactsSBOM sw
             \<lparr>Gen_Name = ''Kubernetes Release '' @ version,
              Gen_AnalyseLayers = False,
              Gen_OnlyDirectDeps = False,
              Gen_License = LicenseIdentifier sw,
              Gen_Namespace = ''https://sbom.k8s.io/'' @ version @ ''/release'',
              Gen_ScanLicenses = False,
              Gen_Tarballs = images,
              Gen_OutputFile = Join w []\<rparr> of
        Inl e \<Rightarrow> (Some (Wrap e (''generating base artifacts sbom for '' @ version)), None)
      | Inr doc \<Rightarrow>
     (case AddBinariesToSBOM sw w doc version of
        Inl e \<Rightarrow> (Some (Wrap e (''adding binaries to '' @ version @ '' SBOM'')), None)
      | Inr doc \<Rightarrow>
     (case AddTarfilesToSBOM sw w doc version of
        Inl e \<Rightarrow> (Some (Wrap e (''adding tarballs to '' @ version @ '' SBOM'')), None)
      | Inr doc \<Rightarrow>
     (let extRef = \<lparr>ID = ''kubernetes-'' @ version,
                     URI = ''https://sbom.k8s.io/'' @ version @ ''/source'',
                     Checksums = []\<rparr> in
      case ExternalDocumentRef_ReadSourceFile sw extRef
             (Join w [TempDir w, ''source-bom-'' @ version @ ''.spdx'']) of
        Inl e \<Rightarrow> (Some (Wrap e ''reading the source file as external reference''), None)
      | Inr extRef \<Rightarrow>
     (let doc = doc\<lparr>ExternalDocRefs := ExternalDocRefs doc @ [extRef]\<rparr>;
          doc = stampPackages version doc;
          path = Join w [TempDir w, ''release-bom-'' @ version @ ''.spdx'']
      in case Write sw doc path of
           Some e \<Rightarrow> (Some (Wrap e (''writing artifacts SBOM for '' @ version)), Some (doc, path))
         | None \<Rightarrow> (None, Some (doc, path))))))))"

text \<open>
  A package is stamped for a version when one of its relationships has the type
  \<open>GENERATED_FROM\<close> and the external peer reference \<open>kubernetes-<version>\<close>; a document
  declares the source-tree document of a version when one of its external document
  references has that identifier and the URI of the version's source document.
\<close>

definition stampedFor :: "string \<Rightarrow> Package \<Rightarrow> bool" where
  "stampedFor version p =
     list_ex (\<lambda>r. Type r = GENERATED_FROM \<and> PeerExtReference r = ''kubernetes-'' @ version)
       (Package_Relationships p)"

definition declaresSource :: "string \<Rightarrow> Document \<Rightarrow> bool" where
  "declaresSource version doc =
     list_ex (\<lambda>x. ID x = ''kubernetes-'' @ version
                 \<and> URI x = ''https://sbom.k8s.io/'' @ version @ ''/source'')
       (ExternalDocRefs doc)"

section \<open>Sample inputs and the properties to prove\<close>

subsection \<open>Sample worlds\<close>

text \<open>
  Concrete inputs for the witnesses: a file system given by the paths that exist and
  the paths that cannot be read, a license reader that knows one license file, and an
  implementation that lists given files and resolves given dependencies.
\<close>

definition sampleJoin :: "string list \<Rightarrow> string" where
  "sampleJoin elems =
     (case filter (\<lambda>e. e \<noteq> []) elems of
        [] \<Rightarrow> []
      | e # es \<Rightarrow> foldl (\<lambda>a b. a @ ''/'' @ b) e es)"

definition sampleBase :: "string \<Rightarrow> string" where
  "sampleBase path = rev (takeWhile (\<lambda>c. c \<noteq> CHR ''/'') (rev path))"

definition sampleFile :: File where
  "sampleFile =
     \<lparr>FileName = [], SourceFile = [], File_Name = [], LicenseInfoInFile = [],
      File_LicenseConcluded = [], Checksum = [], File_Relationships = []\<rparr>"

definition sampleWorld :: "string list \<Rightarrow> string list \<Rightarrow> World" where
  "sampleWorld existing unreadable =
     \<lparr>Abs = Inr, Base = sampleBase, Join = sampleJoin, TempDir = ''/tmp'',
      Exists = (\<lambda>p. p \<in> set existing), NewString = sampleUUID1, NewFile = sampleFile,
      checksums = (\<lambda>p. if p \<in> set unreadable then Inl (New ''permission denied'')
                        else Inr [(''SHA256'', ''0f1e2d'')]),
      AddFile_error = (\<lambda>_ _. None), AddDependency_error = (\<lambda>_ _. None)\<rparr>"

definition sampleLicense :: License where
  "sampleLicense = \<lparr>LicenseID = ''Apache-2.0''\<rparr>"

definition sampleReader :: "string list \<Rightarrow> Reader" where
  "sampleReader unreadable =
     \<lparr>LicenseFromFile =
        (\<lambda>p. if p \<in> set unreadable then Inl (New ''permission denied'')
              else if p = ''/repo/LICENSE'' then Inr (Some sampleLicense)
              else Inr None)\<rparr>"

definition sampleImpl ::
  "string list \<Rightarrow> string list \<Rightarrow> License option \<Rightarrow> error + Package list \<Rightarrow> spdxImplementation"
  where
  "sampleImpl fileList unreadable dirLicense deps =
     \<lparr>GetDirectoryTree = (\<lambda>_. Inr fileList),
      LicenseReader = (\<lambda>_. Inr (sampleReader unreadable)),
      GetDirectoryLicense = (\<lambda>_ _ _. Inr dirLicense),
      impl_IgnorePatterns = (\<lambda>_ extra _. Inr extra),
      ApplyIgnorePatterns = (\<lambda>fl pats. filter (\<lambda>f. f \<notin> set pats) fl),
      GetGoDependencies = (\<lambda>_ _. deps)\<rparr>"

definition sampleSPDX ::
  "string list \<Rightarrow> string list \<Rightarrow> License option \<Rightarrow> error + Package list \<Rightarrow> SPDX" where
  "sampleSPDX fileList unreadable dirLicense deps =
     \<lparr>impl = sampleImpl fileList unreadable dirLicense deps,
      options = defaultSPDXOptions (sampleWorld [] [])\<rparr>"

definition sampleDeps :: "Package list" where
  "sampleDeps =
     [Package ''github.com/pkg/errors'' False [] [] [] [],
      Package ''github.com/google/uuid'' False [] [] [] []]"

definition sampleStageWorld :: StageWorld where
  "sampleStageWorld =
     \<lparr>ListImageArchives = (\<lambda>_. Inr [''/images/kube-apiserver.tar'']),
      ListBinaries = (\<lambda>_. Inr [\<lparr>Path = ''/bin/kubectl'', Platform = ''linux'',
                                  Arch = ''amd64''\<rparr>]),
      ListTarballs = (\<lambda>_. Inr [''/tars/kubernetes.tar.gz'']),
      Generate = (\<lambda>opts. Inr \<lparr>Document_Name = Gen_Name opts, Namespace = Gen_Namespace opts,
                               Packages = [Package ''kube-apiserver'' False [] [] [] [],
                                           Package ''kube-proxy'' False [] [] [] []],
                               Document_Files = [], ExternalDocRefs = []\<rparr>),
      Document_AddFile_error = (\<lambda>_ _. None),
      extRef_checksums = (\<lambda>_. Inr [(''SHA1'', ''a1b2c3'')]),
      Write = (\<lambda>_ _. None),
      LicenseIdentifier = ''Apache-2.0''\<rparr>"

subsection \<open>The results expected of the sample runs\<close>

definition scenarioA_package :: Package where
  "scenarioA_package =
     Package ''repo'' True ''Apache-2.0''
       [\<lparr>FileName = ''a.txt'', SourceFile = ''/repo/a.txt'', File_Name = ''a.txt'',
         LicenseInfoInFile = ''NONE'', File_LicenseConcluded = ''Apache-2.0'',
         Checksum = [(''SHA256'', ''0f1e2d'')], File_Relationships = []\<rparr>,
        \<lparr>FileName = ''LICENSE'', SourceFile = ''/repo/LICENSE'', File_Name = ''LICENSE'',
         LicenseInfoInFile = ''Apache-2.0'', File_LicenseConcluded = [],
         Checksum = [(''SHA256'', ''0f1e2d'')], File_Relationships = []\<rparr>]
       [] []"

definition scenarioA_raced_package :: Package where
  "scenarioA_raced_package =
     Package ''repo'' True ''Apache-2.0''
       [\<lparr>FileName = ''a.txt'', SourceFile = ''/repo/a.txt'', File_Name = ''a.txt'',
         LicenseInfoInFile = ''Apache-2.0'', File_LicenseConcluded = [],
         Checksum = [(''SHA256'', ''0f1e2d'')], File_Relationships = []\<rparr>,
        \<lparr>FileName = ''LICENSE'', SourceFile = ''/repo/LICENSE'', File_Name = ''LICENSE'',
         LicenseInfoInFile = ''Apache-2.0'', File_LicenseConcluded = [],
         Checksum = [(''SHA256'', ''0f1e2d'')], File_Relationships = []\<rparr>]
       [] []"

definition noLicense_package :: Package where
  "noLicense_package =
     Package ''repo'' True []
       [\<lparr>FileName = ''a.txt'', SourceFile = ''/repo/a.txt'', File_Name = ''a.txt'',
         LicenseInfoInFile = ''NONE'', File_LicenseConcluded = [],
         Checksum = [(''SHA256'', ''0f1e2d'')], File_Relationships = []\<rparr>]
       [] []"

definition sampleScanState :: ScanState where
  "sampleScanState =
     \<lparr>err = None, pkg = noLicense_package,
      t = \<lparr>maxWorkers = 5, totalJobs = 1, doneCalls = 1, errs = []\<rparr>,
      dispatched = [''a.txt'']\<rparr>"

definition sampleArtifactsDocument :: Document where
  "sampleArtifactsDocument =
     \<lparr>Document_Name = ''Kubernetes Release v1.22.0'',
      Namespace = ''https://sbom.k8s.io/v1.22.0/release'',
      Packages =
        [Package ''kube-apiserver'' False [] [] [] [sourceRelationship ''v1.22.0''],
         Package ''kube-proxy'' False [] [] [] [sourceRelationship ''v1.22.0'']],
      Document_Files =
        [sampleFile\<lparr>FileName := ''bin/linux/amd64/kubectl'', File_Name := ''bin/linux/amd64/kubectl'',
           File_LicenseConcluded := ''Apache-2.0'', Checksum := [(''SHA256'', ''0f1e2d'')],
           File_Relationships := [sourceRelationship ''v1.22.0'']\<rparr>,
         sampleFile\<lparr>FileName := ''kubernetes.tar.gz'', File_Name := ''kubernetes.tar.gz'',
           File_LicenseConcluded := ''Apache-2.0'', Checksum := [(''SHA256'', ''0f1e2d'')],
           File_Relationships := [sourceRelationship ''v1.22.0'']\<rparr>],
      ExternalDocRefs =
        [\<lparr>ID = ''kubernetes-v1.22.0'', URI = ''https://sbom.k8s.io/v1.22.0/source'',
          Checksums = [(''SHA1'', ''a1b2c3'')]\<rparr>]\<rparr>"

subsection \<open>Properties\<close>

text \<open>What a scan leaves alone in a package: every field but the files.\<close>

definition sameButFiles :: "Package \<Rightarrow> Package \<Rightarrow> bool" where
  "sameButFiles p q =
     (Package_Name q = Package_Name p \<and> FilesAnalyzed q = FilesAnalyzed p
      \<and> Package_LicenseConcluded q = Package_LicenseConcluded p
      \<and> Dependencies q = Dependencies p
      \<and> Package_Relationships q = Package_Relationships p)"

text \<open>
  The license fields of a scanned file, as the content scanner is to set them, against
  the classification of the file by the license reader: without a match the
  license-found value is \<open>NONE\<close> and the concluded license is the license tag of the
  directory; with a match the license-found value is the identifier of the match.
\<close>

definition licenseFieldsOK :: "Reader \<Rightarrow> string \<Rightarrow> File \<Rightarrow> bool" where
  "licenseFieldsOK reader licenseTag f =
     (case LicenseFromFile reader (SourceFile f) of
        Inl e \<Rightarrow> False
      | Inr None \<Rightarrow> LicenseInfoInFile f = NONE \<and> File_LicenseConcluded f = licenseTag
      | Inr (Some l) \<Rightarrow> LicenseInfoInFile f = LicenseID l)"

section \<open>Facts about identifiers\<close>

subsection \<open>The two loops\<close>

lemma seedLoop_eq:
  "seedLoop seeds (vs, n) =
     (vs @ survivingSeeds seeds, n + length (meaningfulSeeds seeds))"
  by (induction seeds arbitrary: vs n)
     (simp_all add: survivingSeeds_def meaningfulSeeds_def Let_def)

lemma buildIDString_eq:
  "buildIDString uuid seeds =
     joinLoop (if meaningfulSeeds seeds = [] then survivingSeeds seeds @ [uuid]
               else survivingSeeds seeds) []"
  by (simp add: buildIDString_def seedLoop_eq)


lemma joinLoop_chars:
  "set (joinLoop ss ident) \<subseteq> set ident \<union> {CHR ''-''} \<union> (\<Union>s\<in>set ss. set s)"
proof (induction ss arbitrary: ident)
  case Nil
  then show ?case by auto
next
  case (Cons s ss)
  define acc where "acc = (if ident \<noteq> [] then ident @ ''-'' else ident) @ s"
  have "joinLoop (s # ss) ident = joinLoop ss acc"
    by (simp add: acc_def)
  moreover have "set (joinLoop ss acc) \<subseteq> set acc \<union> {CHR ''-''} \<union> (\<Union>s\<in>set ss. set s)"
    by (rule Cons.IH)
  moreover have "set acc \<subseteq> set ident \<union> {CHR ''-''} \<union> set s"
    by (auto simp: acc_def)
  ultimately show ?case by auto
qed

lemma joinLoop_nonempty_acc: "ident \<noteq> [] \<Longrightarrow> joinLoop ss ident \<noteq> []"
  by (induction ss arbitrary: ident) simp_all

lemma joinLoop_nonempty:
  "\<exists>s\<in>set ss. s \<noteq> [] \<Longrightarrow> joinLoop ss ident \<noteq> []"
proof (induction ss arbitrary: ident)
  case Nil
  then show ?case by simp
next
  case (Cons s ss)
  show ?case
  proof (cases "s = []")
    case True
    with Cons.prems have "\<exists>s\<in>set ss. s \<noteq> []" by simp
    then show ?thesis using Cons.IH by simp
  next
    case False
    then show ?thesis by (simp add: joinLoop_nonempty_acc)
  qed
qed

lemma sanitizeSeed_chars: "c \<in> set (sanitizeSeed s) \<Longrightarrow> validIDChar c"
  by (simp add: sanitizeSeed_def ReplaceAllString_empty_def)

lemma survivingSeeds_chars:
  "s \<in> set (survivingSeeds seeds) \<Longrightarrow> c \<in> set s \<Longrightarrow> validIDChar c"
  by (auto simp: survivingSeeds_def sanitizeSeed_chars)

lemma meaningful_subset_surviving:
  "set (meaningfulSeeds seeds) \<subseteq> set (survivingSeeds seeds)"
  by (auto simp: meaningfulSeeds_def survivingSeeds_def)

lemma survivingSeeds_nonempty: "s \<in> set (survivingSeeds seeds) \<Longrightarrow> s \<noteq> []"
  by (simp add: survivingSeeds_def)

lemma isHexOrHyphen_valid: "isHexOrHyphen c \<Longrightarrow> validIDChar c"
  by (auto simp: isHexOrHyphen_def validIDChar_def Let_def)

lemma uuidString_chars: "uuidString u \<Longrightarrow> c \<in> set u \<Longrightarrow> validIDChar c"
  by (auto simp: uuidString_def list_all_iff isHexOrHyphen_valid)

lemma uuidString_nonempty: "uuidString u \<Longrightarrow> u \<noteq> []"
  by (auto simp: uuidString_def)

lemma uuidString_sampleUUID1: "uuidString sampleUUID1"
  by (simp add: uuidString_def sampleUUID1_def isHexOrHyphen_def)





lemma meaningfulSeeds_sample:
  "meaningfulSeeds [''SPDXRef-Package'', ''k8s.io/release:v1 beta''] = [''k8s.io-release-v1beta'']"
  by (simp add: meaningfulSeeds_def sanitizeSeed_def ReplaceAll_def ReplaceAllString_empty_def
      validIDChar_def HasPrefix_def)



subsection \<open>The identifier is never empty and has only legal characters\<close>

text \<open>
  C4. For every seed list, the empty one included, \<open>buildIDString\<close> returns a non-empty
  string of letters, digits, hyphens and periods only. The token that the UUID library
  supplies in the fallback case is taken to have the form of a UUID string.
\<close>

theorem buildIDString_nonempty_legal:
  assumes "uuidString uuid"
  shows "buildIDString uuid seeds \<noteq> [] \<and> list_all validIDChar (buildIDString uuid seeds)"
proof
  show "buildIDString uuid seeds \<noteq> []"
  proof (cases "meaningfulSeeds seeds = []")
    case True
    have "\<exists>s\<in>set (survivingSeeds seeds @ [uuid]). s \<noteq> []"
      using uuidString_nonempty [OF assms] by simp
    then have "joinLoop (survivingSeeds seeds @ [uuid]) [] \<noteq> []"
      by (rule joinLoop_nonempty)
    with True show ?thesis by (simp add: buildIDString_eq)
  next
    case False
    then obtain s where "s \<in> set (meaningfulSeeds seeds)"
      by (cases "meaningfulSeeds seeds") auto
    then have "s \<in> set (survivingSeeds seeds)"
      using meaningful_subset_surviving by blast
    then have "\<exists>s\<in>set (survivingSeeds seeds). s \<noteq> []"
      using survivingSeeds_nonempty by blast
    then have "joinLoop (survivingSeeds seeds) [] \<noteq> []"
      by (rule joinLoop_nonempty)
    with False show ?thesis by (simp add: buildIDString_eq)
  qed
next
  have "validIDChar c" if c: "c \<in> set (buildIDString uuid seeds)" for c
  proof -
    let ?vs = "if meaningfulSeeds seeds = [] then survivingSeeds seeds @ [uuid]
               else survivingSeeds seeds"
    from c have "c \<in> set (joinLoop ?vs [])"
      by (simp only: buildIDString_eq)
    then have "c \<in> set [] \<union> {CHR ''-''} \<union> (\<Union>s\<in>set ?vs. set s)"
      using joinLoop_chars [of ?vs "[]"] by blast
    then consider "c = CHR ''-''" | s where "s \<in> set ?vs" "c \<in> set s"
      by auto
    then show ?thesis
    proof cases
      case 1
      then show ?thesis by (simp add: validIDChar_def)
    next
      case 2
      then have "s \<in> set (survivingSeeds seeds) \<or> s = uuid"
        by (auto split: if_splits)
      then show ?thesis
        using 2(2) survivingSeeds_chars uuidString_chars [OF assms] by blast
    qed
  qed
  then show "list_all validIDChar (buildIDString uuid seeds)"
    by (simp add: list_all_iff)
qed

text \<open>C4, witness: the empty seed list with a sample UUID string.\<close>

theorem buildIDString_nonempty_legal_witness:
  "uuidString sampleUUID1
   \<and> buildIDString sampleUUID1 [] \<noteq> []
   \<and> list_all validIDChar (buildIDString sampleUUID1 [])"
  using buildIDString_nonempty_legal [OF uuidString_sampleUUID1, of "[]"]
        uuidString_sampleUUID1
  by simp

subsection \<open>The identifier of a non-degenerate seed list is deterministic\<close>

text \<open>
  C7. When some seed is non-empty after sanitisation and has no \<open>SPDXRef-\<close> prefix, two
  calls of \<open>buildIDString\<close> with the same seed list return the same identifier,
  whatever the UUID library would return in either call: the identifier is the
  surviving seeds joined by hyphens.
\<close>

theorem buildIDString_deterministic:
  assumes "meaningfulSeeds seeds \<noteq> []"
  shows "buildIDString uuid1 seeds = buildIDString uuid2 seeds
         \<and> buildIDString uuid1 seeds = joinLoop (survivingSeeds seeds) []"
  using assms by (simp add: buildIDString_eq)

text \<open>C7, witness: a prefixed seed and a seed with characters to replace and to drop.\<close>

theorem buildIDString_deterministic_witness:
  "meaningfulSeeds [''SPDXRef-Package'', ''k8s.io/release:v1 beta''] \<noteq> []
   \<and> buildIDString sampleUUID1 [''SPDXRef-Package'', ''k8s.io/release:v1 beta'']
       = buildIDString sampleUUID2 [''SPDXRef-Package'', ''k8s.io/release:v1 beta'']
   \<and> buildIDString sampleUUID1 [''SPDXRef-Package'', ''k8s.io/release:v1 beta'']
       = ''SPDXRef-Package-k8s.io-release-v1beta''"
proof -
  have m: "meaningfulSeeds [''SPDXRef-Package'', ''k8s.io/release:v1 beta''] \<noteq> []"
    by (simp add: meaningfulSeeds_sample)
  have s: "joinLoop (survivingSeeds [''SPDXRef-Package'', ''k8s.io/release:v1 beta'']) []
             = ''SPDXRef-Package-k8s.io-release-v1beta''"
    by (simp add: survivingSeeds_def sanitizeSeed_def ReplaceAll_def ReplaceAllString_empty_def
      validIDChar_def)
  show ?thesis
    using buildIDString_deterministic [OF m, of sampleUUID1 sampleUUID2] m s
    by metis
qed

subsection \<open>The fallback identifier\<close>



lemma meaningfulSeeds_empty_seed: "meaningfulSeeds [[]] = []"
  by (simp add: meaningfulSeeds_def sanitizeSeed_def ReplaceAll_def
      ReplaceAllString_empty_def)

lemma meaningfulSeeds_question: "meaningfulSeeds [''??''] = []"
  by (simp add: meaningfulSeeds_def sanitizeSeed_def ReplaceAll_def
      ReplaceAllString_empty_def validIDChar_def)





section \<open>Facts about packages from directories\<close>

subsection \<open>Fields of a package\<close>

lemma Package_sel_set [simp]:
  "Package_Name (set_Package_Name n p) = n"
  "FilesAnalyzed (set_Package_Name n p) = FilesAnalyzed p"
  "Package_LicenseConcluded (set_Package_Name n p) = Package_LicenseConcluded p"
  "Files (set_Package_Name n p) = Files p"
  "Dependencies (set_Package_Name n p) = Dependencies p"
  "Package_Relationships (set_Package_Name n p) = Package_Relationships p"
  "Package_Name (set_FilesAnalyzed b p) = Package_Name p"
  "FilesAnalyzed (set_FilesAnalyzed b p) = b"
  "Package_LicenseConcluded (set_FilesAnalyzed b p) = Package_LicenseConcluded p"
  "Files (set_FilesAnalyzed b p) = Files p"
  "Dependencies (set_FilesAnalyzed b p) = Dependencies p"
  "Package_Relationships (set_FilesAnalyzed b p) = Package_Relationships p"
  "Package_Name (set_Package_LicenseConcluded l p) = Package_Name p"
  "FilesAnalyzed (set_Package_LicenseConcluded l p) = FilesAnalyzed p"
  "Package_LicenseConcluded (set_Package_LicenseConcluded l p) = l"
  "Files (set_Package_LicenseConcluded l p) = Files p"
  "Dependencies (set_Package_LicenseConcluded l p) = Dependencies p"
  "Package_Relationships (set_Package_LicenseConcluded l p) = Package_Relationships p"
  by (cases p; simp)+

lemma Package_sel_set2 [simp]:
  "Package_Name (set_Files fs p) = Package_Name p"
  "FilesAnalyzed (set_Files fs p) = FilesAnalyzed p"
  "Package_LicenseConcluded (set_Files fs p) = Package_LicenseConcluded p"
  "Files (set_Files fs p) = fs"
  "Dependencies (set_Files fs p) = Dependencies p"
  "Package_Relationships (set_Files fs p) = Package_Relationships p"
  "Package_Name (set_Dependencies ds p) = Package_Name p"
  "FilesAnalyzed (set_Dependencies ds p) = FilesAnalyzed p"
  "Package_LicenseConcluded (set_Dependencies ds p) = Package_LicenseConcluded p"
  "Files (set_Dependencies ds p) = Files p"
  "Dependencies (set_Dependencies ds p) = ds"
  "Package_Relationships (set_Dependencies ds p) = Package_Relationships p"
  "Package_Name (set_Package_Relationships rs p) = Package_Name p"
  "FilesAnalyzed (set_Package_Relationships rs p) = FilesAnalyzed p"
  "Package_LicenseConcluded (set_Package_Relationships rs p) = Package_LicenseConcluded p"
  "Files (set_Package_Relationships rs p) = Files p"
  "Dependencies (set_Package_Relationships rs p) = Dependencies p"
  "Package_Relationships (set_Package_Relationships rs p) = rs"
  by (cases p; simp)+

lemma set_Dependencies_id [simp]: "set_Dependencies (Dependencies p) p = p"
  by (cases p) simp

lemma set_Dependencies_twice [simp]:
  "set_Dependencies a (set_Dependencies b p) = set_Dependencies a p"
  by (cases p) simp

subsection \<open>The scan\<close>

lemma scanFile_frame:
  "t (scanFile w reader d tag path st) = t st
   \<and> dispatched (scanFile w reader d tag path st) = dispatched st
   \<and> sameButFiles (pkg st) (pkg (scanFile w reader d tag path st))"
  by (simp add: scanFile_def Let_def sameButFiles_def AddFile_def
      split: sum.splits option.splits)

lemma scanFile_files:
  assumes "list_all (licenseFieldsOK reader tag) (Files (pkg st))"
  shows "list_all (licenseFieldsOK reader tag) (Files (pkg (scanFile w reader d tag path st)))"
  using assms
  by (auto simp: scanFile_def Let_def AddFile_def ReadSourceFile_def licenseFieldsOK_def
      split: sum.splits option.splits)

lemma processDirectoryFile_frame:
  "dispatched (processDirectoryFile w reader d tag path st) = dispatched st
   \<and> sameButFiles (pkg st) (pkg (processDirectoryFile w reader d tag path st))
   \<and> doneCalls (t (processDirectoryFile w reader d tag path st)) = doneCalls (t st) + 1"
  using scanFile_frame [of w reader d tag path st]
  by (simp add: processDirectoryFile_def Let_def Done_def split: option.splits)

lemma processDirectoryFile_files:
  assumes "list_all (licenseFieldsOK reader tag) (Files (pkg st))"
  shows "list_all (licenseFieldsOK reader tag)
           (Files (pkg (processDirectoryFile w reader d tag path st)))"
  using scanFile_files [OF assms, of w d path]
  by (simp add: processDirectoryFile_def Let_def)

lemma processDirectoryFile_errs:
  "errs (t (processDirectoryFile w reader d tag path st)) =
     errs (t st) @ (case err st of None \<Rightarrow> [] | Some e \<Rightarrow> [e])"
  using scanFile_frame [of w reader d tag path st]
  by (simp add: processDirectoryFile_def Let_def Done_def split: option.splits)

lemma sameButFiles_refl: "sameButFiles p p"
  by (simp add: sameButFiles_def)

lemma sameButFiles_trans: "sameButFiles p q \<Longrightarrow> sameButFiles q r \<Longrightarrow> sameButFiles p r"
  by (simp add: sameButFiles_def)

lemma scanLoop_frame:
  "dispatched (scanLoop w reader d tag fl st) = dispatched st @ fl
   \<and> doneCalls (t (scanLoop w reader d tag fl st)) = doneCalls (t st) + length fl
   \<and> sameButFiles (pkg st) (pkg (scanLoop w reader d tag fl st))"
proof (induction fl arbitrary: st)
  case Nil
  show ?case by (simp add: sameButFiles_refl)
next
  case (Cons path fl)
  let ?st0 = "st\<lparr>dispatched := dispatched st @ [path]\<rparr>"
  let ?st1 = "processDirectoryFile w reader d tag path ?st0"
  let ?st2 = "?st1\<lparr>t := Throttle (t ?st1)\<rparr>"
  have step: "scanLoop w reader d tag (path # fl) st = scanLoop w reader d tag fl ?st2"
    by (simp add: Let_def)
  have f1: "dispatched ?st2 = dispatched st @ [path]"
    "doneCalls (t ?st2) = doneCalls (t st) + 1"
    "sameButFiles (pkg st) (pkg ?st2)"
    using processDirectoryFile_frame [of w reader d tag path ?st0]
    by (simp_all add: Throttle_def)
  show ?case
    using Cons.IH [of ?st2] f1 sameButFiles_trans [OF f1(3)]
    by (simp only: step) auto
qed

lemma scanLoop_files:
  assumes "list_all (licenseFieldsOK reader tag) (Files (pkg st))"
  shows "list_all (licenseFieldsOK reader tag) (Files (pkg (scanLoop w reader d tag fl st)))"
  using assms
proof (induction fl arbitrary: st)
  case Nil
  then show ?case by simp
next
  case (Cons path fl)
  let ?st0 = "st\<lparr>dispatched := dispatched st @ [path]\<rparr>"
  let ?st1 = "processDirectoryFile w reader d tag path ?st0"
  let ?st2 = "?st1\<lparr>t := Throttle (t ?st1)\<rparr>"
  have "list_all (licenseFieldsOK reader tag) (Files (pkg ?st0))"
    using Cons.prems by simp
  then have "list_all (licenseFieldsOK reader tag) (Files (pkg ?st1))"
    by (rule processDirectoryFile_files)
  then have "list_all (licenseFieldsOK reader tag) (Files (pkg ?st2))"
    by simp
  then have "list_all (licenseFieldsOK reader tag)
               (Files (pkg (scanLoop w reader d tag fl ?st2)))"
    by (rule Cons.IH)
  then show ?case by (simp add: Let_def)
qed

lemma scanLoop_single_errs:
  "errs (t (scanLoop w reader d tag [path] st)) =
     errs (t st) @ (case err st of None \<Rightarrow> [] | Some e \<Rightarrow> [e])"
  using processDirectoryFile_errs [of w reader d tag path "st\<lparr>dispatched := dispatched st @ [path]\<rparr>"]
  by (simp add: Let_def Throttle_def)

lemma initialPackage_fields:
  "FilesAnalyzed (initialPackage w d tag) = True
   \<and> Package_LicenseConcluded (initialPackage w d tag) = tag
   \<and> Files (initialPackage w d tag) = []
   \<and> Dependencies (initialPackage w d tag) = []"
  by (simp add: initialPackage_def Let_def NewPackage_def)

lemma scanDirectory_Inr:
  assumes "scanDirectory spdx w dir = Inr (d, reader, tag, st)"
  shows "Abs w dir = Inr d"
    and "LicenseReader (impl spdx) (options spdx) = Inr reader"
    and "\<exists>lic. GetDirectoryLicense (impl spdx) reader d (options spdx) = Inr lic
               \<and> tag = (case lic of None \<Rightarrow> [] | Some l \<Rightarrow> LicenseID l)"
    and "sameButFiles (initialPackage w d tag) (pkg st)"
    and "list_all (licenseFieldsOK reader tag) (Files (pkg st))"
    and "\<exists>fl pats. GetDirectoryTree (impl spdx) d = Inr fl
               \<and> impl_IgnorePatterns (impl spdx) d (IgnorePatterns (options spdx))
                    (NoGitignore (options spdx)) = Inr pats
               \<and> dispatched st = ApplyIgnorePatterns (impl spdx) fl pats
               \<and> doneCalls (t st) = length (ApplyIgnorePatterns (impl spdx) fl pats)"
proof -
  from assms obtain fl0 lic pats where
    a: "Abs w dir = Inr d"
    and g: "GetDirectoryTree (impl spdx) d = Inr fl0"
    and r: "LicenseReader (impl spdx) (options spdx) = Inr reader"
    and l: "GetDirectoryLicense (impl spdx) reader d (options spdx) = Inr lic"
    and tg: "tag = (case lic of None \<Rightarrow> [] | Some l \<Rightarrow> LicenseID l)"
    and i: "impl_IgnorePatterns (impl spdx) d (IgnorePatterns (options spdx))
              (NoGitignore (options spdx)) = Inr pats"
    and s: "st = scanLoop w reader d tag (ApplyIgnorePatterns (impl spdx) fl0 pats)
                   \<lparr>err = None, pkg = initialPackage w d tag,
                    t = throttler_New 5 (length (ApplyIgnorePatterns (impl spdx) fl0 pats)),
                    dispatched = []\<rparr>"
    by (auto simp: scanDirectory_def Let_def split: sum.splits)
  let ?fl = "ApplyIgnorePatterns (impl spdx) fl0 pats"
  let ?st0 = "\<lparr>err = None, pkg = initialPackage w d tag,
                t = throttler_New 5 (length ?fl), dispatched = []\<rparr>"
  show "Abs w dir = Inr d" by (rule a)
  show "LicenseReader (impl spdx) (options spdx) = Inr reader" by (rule r)
  show "\<exists>lic. GetDirectoryLicense (impl spdx) reader d (options spdx) = Inr lic
               \<and> tag = (case lic of None \<Rightarrow> [] | Some l \<Rightarrow> LicenseID l)"
    using l tg by blast
  have fr: "dispatched st = ?fl \<and> doneCalls (t st) = length ?fl
            \<and> sameButFiles (initialPackage w d tag) (pkg st)"
    using scanLoop_frame [of w reader d tag ?fl ?st0]
    by (simp add: s throttler_New_def)
  show "sameButFiles (initialPackage w d tag) (pkg st)"
    using fr by simp
  have "list_all (licenseFieldsOK reader tag) (Files (pkg ?st0))"
    by (simp add: initialPackage_fields)
  then show "list_all (licenseFieldsOK reader tag) (Files (pkg st))"
    unfolding s by (rule scanLoop_files)
  show "\<exists>fl pats. GetDirectoryTree (impl spdx) d = Inr fl
               \<and> impl_IgnorePatterns (impl spdx) d (IgnorePatterns (options spdx))
                    (NoGitignore (options spdx)) = Inr pats
               \<and> dispatched st = ApplyIgnorePatterns (impl spdx) fl pats
               \<and> doneCalls (t st) = length (ApplyIgnorePatterns (impl spdx) fl pats)"
    using g i fr by blast
qed

lemma addDependencies_Inr:
  "addDependencies w p deps = Inr p' \<Longrightarrow>
     p' = set_Dependencies (Dependencies p @ deps) p"
proof (induction deps arbitrary: p)
  case Nil
  then show ?case by simp
next
  case (Cons dep deps)
  from Cons.prems obtain q where
    q: "AddDependency w p dep = Inr q" and r: "addDependencies w q deps = Inr p'"
    by (auto split: sum.splits)
  from q have "q = set_Dependencies (Dependencies p @ [dep]) p"
    by (auto simp: AddDependency_def split: option.splits)
  with Cons.IH [OF r] show ?case by simp
qed

lemma addDependencies_Inl:
  "addDependencies w p deps = Inl e \<Longrightarrow> \<exists>e'. e = Wrap e' ''adding go dependency''"
  by (induction deps arbitrary: p) (auto split: sum.splits)

lemma addDependencies_no_error:
  "(\<And>q dep. AddDependency_error w q dep = None) \<Longrightarrow>
     addDependencies w p deps = Inr (set_Dependencies (Dependencies p @ deps) p)"
proof (induction deps arbitrary: p)
  case Nil
  show ?case by simp
next
  case (Cons dep deps)
  have "AddDependency w p dep = Inr (set_Dependencies (Dependencies p @ [dep]) p)"
    by (simp add: AddDependency_def Cons.prems)
  then show ?case
    using Cons.IH [OF Cons.prems, of "set_Dependencies (Dependencies p @ [dep]) p"]
    by simp
qed

lemma PackageFromDirectory_Some:
  assumes "PackageFromDirectory spdx w dir = (Some p, None)"
  shows "\<exists>d reader tag st.
           scanDirectory spdx w dir = Inr (d, reader, tag, st)
           \<and> Files p = Files (pkg st)
           \<and> sameButFiles (pkg st)
                (set_Dependencies (Dependencies (pkg st)) p)"
proof -
  from assms obtain d reader tag st where
    sd: "scanDirectory spdx w dir = Inr (d, reader, tag, st)"
    and pg: "processGoModule spdx w d (pkg st) = (Some p, None)"
    by (auto simp: PackageFromDirectory_def split: sum.splits option.splits)
  have "p = pkg st \<or> (\<exists>deps. addDependencies w (pkg st) deps = Inr p)"
    using pg by (auto simp: processGoModule_def split: if_splits sum.splits)
  then have "Files p = Files (pkg st)
             \<and> sameButFiles (pkg st) (set_Dependencies (Dependencies (pkg st)) p)"
  proof
    assume "p = pkg st"
    then show ?thesis by (simp add: sameButFiles_def)
  next
    assume "\<exists>deps. addDependencies w (pkg st) deps = Inr p"
    then obtain deps where "addDependencies w (pkg st) deps = Inr p" ..
    then have "p = set_Dependencies (Dependencies (pkg st) @ deps) (pkg st)"
      by (rule addDependencies_Inr)
    then show ?thesis by (simp add: sameButFiles_def)
  qed
  with sd show ?thesis by blast
qed

lemmas sample_defs =
  PackageFromDirectory_def scanDirectory_def processGoModule_def initialPackage_def
  NewPackage_def processDirectoryFile_def scanFile_def throttler_New_def Done_def
  Throttle_def Err_def AddFile_def AddDependency_def ReadSourceFile_def TrimPrefix_def
  HasPrefix_def Separator_def GoModFileName_def NONE_def sampleSPDX_def sampleImpl_def
  sampleReader_def sampleWorld_def sampleJoin_def sampleBase_def sampleFile_def
  sampleLicense_def defaultSPDXOptions_def Let_def

subsection \<open>The license fields of the scanned files\<close>

text \<open>
  When the goroutines run one after the other, every file of the package that a
  successful call returns has its license fields as the content scanner is to set them.
\<close>

lemma in_order_license_fields:
  assumes "PackageFromDirectory spdx w dir = (Some p, None)"
  shows "\<exists>reader. LicenseReader (impl spdx) (options spdx) = Inr reader
           \<and> list_all (licenseFieldsOK reader (Package_LicenseConcluded p)) (Files p)"
proof -
  from PackageFromDirectory_Some [OF assms] obtain d reader tag st where
    sd: "scanDirectory spdx w dir = Inr (d, reader, tag, st)"
    and fs: "Files p = Files (pkg st)"
    and sb: "sameButFiles (pkg st) (set_Dependencies (Dependencies (pkg st)) p)"
    by blast
  have "Package_LicenseConcluded p = Package_LicenseConcluded (pkg st)"
    using sb by (simp add: sameButFiles_def)
  also have "\<dots> = tag"
    using scanDirectory_Inr(4) [OF sd] by (simp add: sameButFiles_def initialPackage_fields)
  finally have "Package_LicenseConcluded p = tag" .
  then show ?thesis
    using scanDirectory_Inr(2,5) [OF sd] fs by auto
qed

lemma scenarioA_run:
  "PackageFromDirectory (sampleSPDX [''a.txt'', ''LICENSE''] [] (Some sampleLicense) (Inr []))
     (sampleWorld [] []) ''/repo'' = (Some scenarioA_package, None)"
  by (simp add: sample_defs scenarioA_package_def)

subsection \<open>Interleaved goroutines\<close>

text \<open>
  The two parts of \<open>processDirectoryFile\<close>, run back to back, are the closure as
  \<open>scanLoop\<close> runs it; so the schedule \<open>inOrder\<close> gives the result of
  \<open>PackageFromDirectory\<close>.
\<close>

lemma start_finish:
  "shared (finishFile w d tag (fst (startFile w reader d path s))
             (snd (startFile w reader d path s)))
     = processDirectoryFile w reader d tag path (shared s)"
  by (simp add: startFile_def finishFile_def processDirectoryFile_def scanFile_def Let_def
      split: sum.splits option.splits)

lemma startFile_frame:
  "pending (snd (startFile w reader d path s)) = pending s
   \<and> goroutines (snd (startFile w reader d path s)) = goroutines s
   \<and> \<not> g_returned (fst (startFile w reader d path s))"
  by (simp add: startFile_def Let_def split: sum.splits)

lemma finishFile_frame:
  "pending (finishFile w d tag g s) = pending s
   \<and> goroutines (finishFile w d tag g s) = goroutines s
   \<and> shared (finishFile w d tag g (s\<lparr>goroutines := gs\<rparr>)) = shared (finishFile w d tag g s)"
  by (simp add: finishFile_def Let_def split: option.splits sum.splits)

lemma processDirectoryFile_maxWorkers:
  "maxWorkers (t (processDirectoryFile w reader d tag path st)) = maxWorkers (t st)"
  using scanFile_frame [of w reader d tag path st]
  by (simp add: processDirectoryFile_def Let_def Done_def split: option.splits)

lemma dispatch_resume:
  assumes p: "pending s = path # rest" and r: "running s = 0"
    and m: "0 < maxWorkers (t (shared s))"
  shows "\<exists>s1 s2. stepEvent w reader d tag Dispatch s = Some s1
           \<and> stepEvent w reader d tag (Resume (length (goroutines s))) s1 = Some s2
           \<and> pending s2 = rest \<and> running s2 = 0
           \<and> length (goroutines s2) = Suc (length (goroutines s))
           \<and> shared s2 = processDirectoryFile w reader d tag path
                            ((shared s)\<lparr>dispatched := dispatched (shared s) @ [path]\<rparr>)"
proof -
  let ?s0 = "s\<lparr>shared := (shared s)\<lparr>dispatched := dispatched (shared s) @ [path]\<rparr>,
               pending := rest\<rparr>"
  let ?g = "fst (startFile w reader d path ?s0)"
  let ?s0' = "snd (startFile w reader d path ?s0)"
  let ?s1 = "?s0'\<lparr>goroutines := goroutines ?s0' @ [?g]\<rparr>"
  let ?f = "finishFile w d tag ?g ?s1"
  let ?s2 = "?f\<lparr>goroutines := (goroutines ?f)[length (goroutines s) := ?g\<lparr>g_returned := True\<rparr>]\<rparr>"
  have fr: "pending ?s0' = rest" "goroutines ?s0' = goroutines s" "\<not> g_returned ?g"
    using startFile_frame [of w reader d path ?s0] by simp_all
  have d1: "stepEvent w reader d tag Dispatch s = Some ?s1"
    using p r m by (simp add: case_prod_beta Let_def)
  have g1: "goroutines ?s1 = goroutines s @ [?g]" "pending ?s1 = rest"
    using fr by simp_all
  have d2: "stepEvent w reader d tag (Resume (length (goroutines s))) ?s1 = Some ?s2"
    using fr(3) by (simp add: g1 Let_def del: stepEvent.simps(1))
  have ff: "pending ?f = rest" "goroutines ?f = goroutines s @ [?g]"
    using finishFile_frame [of w d tag ?g ?s1] g1 by simp_all
  have sh: "shared ?s2 = processDirectoryFile w reader d tag path (shared ?s0)"
    using finishFile_frame [of w d tag ?g ?s0' "goroutines ?s0' @ [?g]"]
      start_finish [of w d tag reader path ?s0]
    by simp
  have rn: "running ?s2 = 0"
    using r by (simp add: running_def ff)
  show ?thesis
    using d1 d2 sh rn ff by (intro exI [of _ ?s1] exI [of _ ?s2]) simp
qed

lemma scanLoop_maxWorkers:
  "maxWorkers (t (scanLoop w reader d tag fl st)) = maxWorkers (t st)"
  by (induction fl arbitrary: st)
     (simp_all add: Let_def Throttle_def processDirectoryFile_maxWorkers)

lemma runEvents_inOrder:
  assumes "pending s = fl" and "running s = 0" and "0 < maxWorkers (t (shared s))"
  shows "\<exists>s'. runEvents w reader d tag (inOrder (length (goroutines s)) (length fl)) s
                 = Some s'
              \<and> shared s' = scanLoop w reader d tag fl (shared s)"
  using assms
proof (induction fl arbitrary: s)
  case Nil
  then show ?case by simp
next
  case (Cons path rest)
  from dispatch_resume [OF Cons.prems(1) Cons.prems(2) Cons.prems(3), of w reader d tag]
  obtain s1 s2 where
    d1: "stepEvent w reader d tag Dispatch s = Some s1"
    and d2: "stepEvent w reader d tag (Resume (length (goroutines s))) s1 = Some s2"
    and p2: "pending s2 = rest" and r2: "running s2 = 0"
    and l2: "length (goroutines s2) = Suc (length (goroutines s))"
    and sh: "shared s2 = processDirectoryFile w reader d tag path
                           ((shared s)\<lparr>dispatched := dispatched (shared s) @ [path]\<rparr>)"
    by blast
  have m2: "0 < maxWorkers (t (shared s2))"
    using Cons.prems(3) by (simp add: sh processDirectoryFile_maxWorkers)
  from Cons.IH [OF p2 r2 m2] obtain s' where
    run: "runEvents w reader d tag (inOrder (Suc (length (goroutines s))) (length rest)) s2
            = Some s'"
    and res: "shared s' = scanLoop w reader d tag rest (shared s2)"
    by (auto simp: l2)
  have "runEvents w reader d tag (inOrder (length (goroutines s)) (length (path # rest))) s
          = Some s'"
    using d1 d2 run by (simp del: stepEvent.simps)
  moreover have "shared s' = scanLoop w reader d tag (path # rest) (shared s)"
    by (simp add: res sh Let_def Throttle_def)
  ultimately show ?case by blast
qed

text \<open>Under the schedule of \<open>scanLoop\<close> the two models agree, for every input.\<close>

lemma scheduled_in_order:
  "PackageFromDirectoryScheduled spdx w (\<lambda>fl. inOrder 0 (length fl)) dir
     = Some (PackageFromDirectory spdx w dir)"
proof -
  have key:
    "(case runEvents w reader d tag (inOrder 0 (length fl))
             \<lparr>shared = \<lparr>err = None, pkg = p, t = throttler_New 5 (length fl),
                        dispatched = []\<rparr>,
              shared_lic = lic, pending = fl, goroutines = []\<rparr> of
        None \<Rightarrow> None
      | Some s \<Rightarrow>
          (case Err (t (shared s)) of
             Some e \<Rightarrow> Some (None, Some e)
           | None \<Rightarrow> Some (processGoModule spdx w d (pkg (shared s)))))
     = Some (case Err (t (scanLoop w reader d tag fl
                \<lparr>err = None, pkg = p, t = throttler_New 5 (length fl), dispatched = []\<rparr>)) of
               Some e \<Rightarrow> (None, Some e)
             | None \<Rightarrow> processGoModule spdx w d (pkg (scanLoop w reader d tag fl
                \<lparr>err = None, pkg = p, t = throttler_New 5 (length fl), dispatched = []\<rparr>)))"
    for reader d tag fl p lic
  proof -
    obtain s' where
      a: "runEvents w reader d tag (inOrder 0 (length fl))
             \<lparr>shared = \<lparr>err = None, pkg = p, t = throttler_New 5 (length fl),
                        dispatched = []\<rparr>,
              shared_lic = lic, pending = fl, goroutines = []\<rparr> = Some s'"
      and b: "shared s' = scanLoop w reader d tag fl
                \<lparr>err = None, pkg = p, t = throttler_New 5 (length fl), dispatched = []\<rparr>"
      using runEvents_inOrder [of "\<lparr>shared = \<lparr>err = None, pkg = p,
              t = throttler_New 5 (length fl), dispatched = []\<rparr>,
              shared_lic = lic, pending = fl, goroutines = []\<rparr>" fl w reader d tag]
      by (auto simp: running_def throttler_New_def)
    show ?thesis by (simp add: a b split: option.splits)
  qed
  show ?thesis
    unfolding PackageFromDirectoryScheduled_def PackageFromDirectory_def scanDirectory_def
    by (simp add: Let_def key split: sum.splits)
qed

text \<open>
  C2. The claim does not hold for the code: the goroutines share the variable \<open>lic\<close>.
  In the spec's scenario A, with the goroutine of \<open>a.txt\<close> and then the goroutine of
  \<open>LICENSE\<close> executing line 191 before either goes on, the call succeeds and \<open>a.txt\<close>,
  for which the license reader finds no match, carries the identifier of the license of
  \<open>LICENSE\<close> as its license-found value, not \<open>NONE\<close>, and its concluded license is not
  set to the license of the package. In dispatch order the same directory gives the
  fields the claim states.
\<close>

theorem interleaved_scan_takes_other_license:
  "PackageFromDirectoryScheduled
     (sampleSPDX [''a.txt'', ''LICENSE''] [] (Some sampleLicense) (Inr []))
     (sampleWorld [] []) (\<lambda>fileList. [Dispatch, Dispatch, Resume 0, Resume 1]) ''/repo''
     = Some (Some scenarioA_raced_package, None)
   \<and> LicenseFromFile (sampleReader []) ''/repo/a.txt'' = Inr None
   \<and> map (\<lambda>f. (SourceFile f, LicenseInfoInFile f, File_LicenseConcluded f))
        (Files scenarioA_raced_package)
       = [(''/repo/a.txt'', ''Apache-2.0'', []), (''/repo/LICENSE'', ''Apache-2.0'', [])]
   \<and> PackageFromDirectoryScheduled
     (sampleSPDX [''a.txt'', ''LICENSE''] [] (Some sampleLicense) (Inr []))
     (sampleWorld [] []) (\<lambda>fileList. inOrder 0 (length fileList)) ''/repo''
     = Some (Some scenarioA_package, None)"
  by (simp add: PackageFromDirectoryScheduled_def startFile_def finishFile_def running_def
      sample_defs scenarioA_raced_package_def scenarioA_package_def)

subsection \<open>The error of an unreadable file\<close>

lemma scanLoop_append:
  "scanLoop w reader d tag (xs @ ys) st =
     scanLoop w reader d tag ys (scanLoop w reader d tag xs st)"
  by (induction xs arbitrary: st) (simp_all add: Let_def)

text \<open>
  The goroutine of the last file reports to the throttler the error that the goroutines
  before it have left in the shared variable, not its own.
\<close>

lemma scanLoop_last_errs:
  "errs (t (scanLoop w reader d tag (fl @ [path]) st)) =
     errs (t (scanLoop w reader d tag fl st))
     @ (case err (scanLoop w reader d tag fl st) of None \<Rightarrow> [] | Some e \<Rightarrow> [e])"
  by (simp only: scanLoop_append scanLoop_single_errs)

text \<open>
  In particular, whatever happens to the only file of a list, the throttler has no error
  after the loop.
\<close>

lemma scanLoop_single_Err:
  "Err (t (scanLoop w reader d tag [path]
             \<lparr>err = None, pkg = p, t = throttler_New 5 1, dispatched = []\<rparr>)) = None"
proof -
  have "errs (t (scanLoop w reader d tag [path]
             \<lparr>err = None, pkg = p, t = throttler_New 5 1, dispatched = []\<rparr>)) = []"
    by (simp only: scanLoop_single_errs) (simp add: throttler_New_def)
  then show ?thesis by (simp only: Err_def) simp
qed

text \<open>
  C1. The loop dispatches every file, whatever fails (\<open>scanLoop_frame\<close>), but the
  error of a goroutine does not reach the throttler: \<open>defer t.Done(err)\<close> hands over
  the value \<open>err\<close> had when the goroutine started (\<open>processDirectoryFile_errs\<close>,
  \<open>scanLoop_last_errs\<close>, \<open>scanLoop_single_Err\<close>). For a directory whose only file cannot be read, the call
  returns the package without a file and a nil error; so it does in dispatch order when
  a readable file precedes the unreadable one.
\<close>

theorem unreadable_file_error_lost:
  "PackageFromDirectory
     (sampleSPDX [''unreadable.txt''] [''/repo/unreadable.txt''] None (Inr []))
     (sampleWorld [] [''/repo/unreadable.txt'']) ''/repo''
     = (Some (Package ''repo'' True [] [] [] []), None)
   \<and> PackageFromDirectory
     (sampleSPDX [''a.txt'', ''unreadable.txt''] [''/repo/unreadable.txt''] None (Inr []))
     (sampleWorld [] [''/repo/unreadable.txt'']) ''/repo''
     = (Some (Package ''repo'' True []
               [sampleFile\<lparr>FileName := ''a.txt'', SourceFile := ''/repo/a.txt'',
                   File_Name := ''a.txt'', LicenseInfoInFile := ''NONE'',
                   Checksum := [(''SHA256'', ''0f1e2d'')]\<rparr>] [] []), None)"
  by (simp add: sample_defs)

subsection \<open>A directory without a license\<close>

text \<open>
  C10. When a call of \<open>PackageFromDirectory\<close> succeeds and the classification of the
  directory finds no license, the concluded license of the returned package is the
  empty string, neither \<open>NOASSERTION\<close> nor \<open>NONE\<close>, and its flag \<open>FilesAnalyzed\<close> is
  true.
\<close>

theorem no_directory_license_empty_concluded:
  assumes "PackageFromDirectory spdx w dir = (Some p, None)"
    and "Abs w dir = Inr d"
    and "LicenseReader (impl spdx) (options spdx) = Inr reader"
    and "GetDirectoryLicense (impl spdx) reader d (options spdx) = Inr None"
  shows "Package_LicenseConcluded p = [] \<and> Package_LicenseConcluded p \<noteq> NOASSERTION
         \<and> Package_LicenseConcluded p \<noteq> NONE \<and> FilesAnalyzed p"
proof -
  from PackageFromDirectory_Some [OF assms(1)] obtain d' reader' tag st where
    sd: "scanDirectory spdx w dir = Inr (d', reader', tag, st)"
    and sb: "sameButFiles (pkg st) (set_Dependencies (Dependencies (pkg st)) p)"
    by blast
  have d: "d' = d" using scanDirectory_Inr(1) [OF sd] assms(2) by simp
  have r: "reader' = reader" using scanDirectory_Inr(2) [OF sd] assms(3) by simp
  have "tag = []"
    using scanDirectory_Inr(3) [OF sd] assms(4) by (auto simp: d r)
  moreover have "Package_LicenseConcluded p = tag \<and> FilesAnalyzed p"
    using sb scanDirectory_Inr(4) [OF sd]
    by (simp add: sameButFiles_def initialPackage_fields)
  ultimately show ?thesis by (simp add: NONE_def NOASSERTION_def)
qed

lemma noLicense_run:
  "PackageFromDirectory (sampleSPDX [''a.txt''] [] None (Inr [])) (sampleWorld [] []) ''/repo''
     = (Some noLicense_package, None)"
  by (simp add: sample_defs noLicense_package_def)

text \<open>
  C10, witness: a directory with one file and no license.
\<close>

theorem no_directory_license_empty_concluded_witness:
  "PackageFromDirectory (sampleSPDX [''a.txt''] [] None (Inr [])) (sampleWorld [] []) ''/repo''
     = (Some noLicense_package, None)
   \<and> Abs (sampleWorld [] []) ''/repo'' = Inr ''/repo''
   \<and> LicenseReader (impl (sampleSPDX [''a.txt''] [] None (Inr [])))
        (options (sampleSPDX [''a.txt''] [] None (Inr []))) = Inr (sampleReader [])
   \<and> GetDirectoryLicense (impl (sampleSPDX [''a.txt''] [] None (Inr []))) (sampleReader [])
        ''/repo'' (options (sampleSPDX [''a.txt''] [] None (Inr []))) = Inr None
   \<and> Package_LicenseConcluded noLicense_package = []
   \<and> Package_LicenseConcluded noLicense_package \<noteq> NOASSERTION
   \<and> Package_LicenseConcluded noLicense_package \<noteq> NONE
   \<and> FilesAnalyzed noLicense_package"
proof -
  have a: "Abs (sampleWorld [] []) ''/repo'' = Inr ''/repo''"
    by (simp add: sampleWorld_def)
  have r: "LicenseReader (impl (sampleSPDX [''a.txt''] [] None (Inr [])))
        (options (sampleSPDX [''a.txt''] [] None (Inr []))) = Inr (sampleReader [])"
    by (simp add: sampleSPDX_def sampleImpl_def)
  have l: "GetDirectoryLicense (impl (sampleSPDX [''a.txt''] [] None (Inr []))) (sampleReader [])
        ''/repo'' (options (sampleSPDX [''a.txt''] [] None (Inr []))) = Inr None"
    by (simp add: sampleSPDX_def sampleImpl_def)
  show ?thesis
    using no_directory_license_empty_concluded [OF noLicense_run a r l] noLicense_run a r l
    by blast
qed

subsection \<open>The dependencies of a Go module\<close>

text \<open>
  C5. When the scan of the directory has succeeded, the directory holds a go.mod file
  and the options enable the processing of Go modules: if the resolution of the
  dependencies fails, \<open>PackageFromDirectory\<close> returns no package and the error wrapped
  with "scanning go packages"; otherwise it returns the scanned package with exactly the
  resolved dependencies attached, in order, or no package and an error wrapped with
  "adding go dependency" (never a package with a part of them), and it returns the
  package whenever \<open>AddDependency\<close> refuses none.
\<close>

theorem go_module_dependencies:
  assumes "scanDirectory spdx w dir = Inr (d, reader, tag, st)"
    and "Err (t st) = None"
    and "Exists w (Join w [d, GoModFileName])"
    and "ProcessGoModules (options spdx)"
  shows "case GetGoDependencies (impl spdx) d (options spdx) of
           Inl e \<Rightarrow>
             PackageFromDirectory spdx w dir = (None, Some (Wrap e ''scanning go packages''))
         | Inr deps \<Rightarrow>
             (PackageFromDirectory spdx w dir
                = (Some (set_Dependencies deps (pkg st)), None)
              \<or> (\<exists>e. PackageFromDirectory spdx w dir
                        = (None, Some (Wrap e ''adding go dependency''))))
             \<and> ((\<forall>q dep. AddDependency_error w q dep = None) \<longrightarrow>
                  PackageFromDirectory spdx w dir
                    = (Some (set_Dependencies deps (pkg st)), None))"
proof (cases "GetGoDependencies (impl spdx) d (options spdx)")
  case (Inl e)
  then show ?thesis
    using assms by (simp add: PackageFromDirectory_def processGoModule_def)
next
  case (Inr deps)
  have nodeps: "Dependencies (pkg st) = []"
    using scanDirectory_Inr(4) [OF assms(1)]
    by (simp add: sameButFiles_def initialPackage_fields)
  have pfd: "PackageFromDirectory spdx w dir =
               (case addDependencies w (pkg st) deps of
                  Inl e \<Rightarrow> (None, Some e) | Inr p' \<Rightarrow> (Some p', None))"
    using assms Inr by (simp add: PackageFromDirectory_def processGoModule_def)
  have one: "PackageFromDirectory spdx w dir = (Some (set_Dependencies deps (pkg st)), None)
             \<or> (\<exists>e. PackageFromDirectory spdx w dir
                       = (None, Some (Wrap e ''adding go dependency'')))"
  proof (cases "addDependencies w (pkg st) deps")
    case (Inl e)
    then show ?thesis using addDependencies_Inl [OF Inl] pfd by auto
  next
    case (Inr p')
    then show ?thesis using addDependencies_Inr [OF Inr] pfd nodeps by simp
  qed
  have two: "PackageFromDirectory spdx w dir = (Some (set_Dependencies deps (pkg st)), None)"
    if "\<forall>q dep. AddDependency_error w q dep = None"
    using addDependencies_no_error [of w "pkg st" deps] that pfd nodeps by simp
  show ?thesis using Inr one two by simp
qed

lemma sampleScan_run:
  "scanDirectory (sampleSPDX [''a.txt''] [] None (Inr sampleDeps))
     (sampleWorld [''/repo/go.mod''] []) ''/repo''
     = Inr (''/repo'', sampleReader [], [], sampleScanState)"
  by (simp add: sample_defs sampleScanState_def noLicense_package_def)

lemma sampleScan_run_failing:
  "scanDirectory (sampleSPDX [''a.txt''] [] None (Inl (New ''go list failed'')))
     (sampleWorld [''/repo/go.mod''] []) ''/repo''
     = Inr (''/repo'', sampleReader [], [], sampleScanState)"
  by (simp add: sample_defs sampleScanState_def noLicense_package_def)

text \<open>
  C5, witness: a module with two resolved dependencies, and the same directory with a
  failing resolution.
\<close>

theorem go_module_dependencies_witness:
  "scanDirectory (sampleSPDX [''a.txt''] [] None (Inr sampleDeps))
     (sampleWorld [''/repo/go.mod''] []) ''/repo''
     = Inr (''/repo'', sampleReader [], [], sampleScanState)
   \<and> Err (t sampleScanState) = None
   \<and> Exists (sampleWorld [''/repo/go.mod''] [])
        (Join (sampleWorld [''/repo/go.mod''] []) [''/repo'', GoModFileName])
   \<and> ProcessGoModules (options (sampleSPDX [''a.txt''] [] None (Inr sampleDeps)))
   \<and> PackageFromDirectory (sampleSPDX [''a.txt''] [] None (Inr sampleDeps))
        (sampleWorld [''/repo/go.mod''] []) ''/repo''
       = (Some (set_Dependencies sampleDeps (pkg sampleScanState)), None)
   \<and> PackageFromDirectory (sampleSPDX [''a.txt''] [] None (Inl (New ''go list failed'')))
        (sampleWorld [''/repo/go.mod''] []) ''/repo''
       = (None, Some (Wrap (New ''go list failed'') ''scanning go packages''))"
proof -
  let ?w = "sampleWorld [''/repo/go.mod''] []"
  let ?ok = "sampleSPDX [''a.txt''] [] None (Inr sampleDeps)"
  let ?bad = "sampleSPDX [''a.txt''] [] None (Inl (New ''go list failed''))"
  have e: "Err (t sampleScanState) = None"
    by (simp add: sampleScanState_def Err_def)
  have x: "Exists ?w (Join ?w [''/repo'', GoModFileName])"
    by (simp add: sampleWorld_def sampleJoin_def GoModFileName_def)
  have p1: "ProcessGoModules (options ?ok)"
    by (simp add: sampleSPDX_def defaultSPDXOptions_def)
  have p2: "ProcessGoModules (options ?bad)"
    by (simp add: sampleSPDX_def defaultSPDXOptions_def)
  have g1: "GetGoDependencies (impl ?ok) ''/repo'' (options ?ok) = Inr sampleDeps"
    by (simp add: sampleSPDX_def sampleImpl_def)
  have g2: "GetGoDependencies (impl ?bad) ''/repo'' (options ?bad) = Inl (New ''go list failed'')"
    by (simp add: sampleSPDX_def sampleImpl_def)
  have n: "\<forall>q dep. AddDependency_error ?w q dep = None"
    by (simp add: sampleWorld_def)
  have r1: "PackageFromDirectory ?ok ?w ''/repo''
              = (Some (set_Dependencies sampleDeps (pkg sampleScanState)), None)"
    using go_module_dependencies [OF sampleScan_run e x p1] n by (simp add: g1)
  have r2: "PackageFromDirectory ?bad ?w ''/repo''
              = (None, Some (Wrap (New ''go list failed'') ''scanning go packages''))"
    using go_module_dependencies [OF sampleScan_run_failing e x p2] by (simp add: g2)
  show ?thesis
    using sampleScan_run e x p1 r1 r2 by blast
qed

subsection \<open>Files from paths\<close>

text \<open>
  C9. \<open>FileFromPath\<close> returns the error "file does not exist" and no file when nothing
  exists at the path; when the file exists and its content can be read for the
  checksums, it returns a file (the new file with these checksums) and no error.
\<close>

theorem FileFromPath_result:
  "(\<not> Exists w filePath \<longrightarrow>
      FileFromPath w filePath = (None, Some (New ''file does not exist'')))
   \<and> (Exists w filePath \<longrightarrow>
        (\<forall>cs. checksums w filePath = Inr cs \<longrightarrow>
           FileFromPath w filePath = (Some ((NewFile w)\<lparr>Checksum := cs\<rparr>), None)))"
  by (simp add: FileFromPath_def ReadSourceFile_def)


text \<open>
  C9, witness: a world with one readable file, asked for a missing path and for the
  file.
\<close>

theorem FileFromPath_result_witness:
  "\<not> Exists (sampleWorld [''/repo/a.txt''] []) ''/repo/missing.txt''
   \<and> FileFromPath (sampleWorld [''/repo/a.txt''] []) ''/repo/missing.txt''
       = (None, Some (New ''file does not exist''))
   \<and> Exists (sampleWorld [''/repo/a.txt''] []) ''/repo/a.txt''
   \<and> checksums (sampleWorld [''/repo/a.txt''] []) ''/repo/a.txt'' = Inr [(''SHA256'', ''0f1e2d'')]
   \<and> FileFromPath (sampleWorld [''/repo/a.txt''] []) ''/repo/a.txt''
       = (Some (sampleFile\<lparr>Checksum := [(''SHA256'', ''0f1e2d'')]\<rparr>), None)"
proof -
  have e1: "\<not> Exists (sampleWorld [''/repo/a.txt''] []) ''/repo/missing.txt''"
    by (simp add: sampleWorld_def)
  have e2: "Exists (sampleWorld [''/repo/a.txt''] []) ''/repo/a.txt''"
    by (simp add: sampleWorld_def)
  have c: "checksums (sampleWorld [''/repo/a.txt''] []) ''/repo/a.txt''
             = Inr [(''SHA256'', ''0f1e2d'')]"
    by (simp add: sampleWorld_def)
  have n: "NewFile (sampleWorld [''/repo/a.txt''] []) = sampleFile"
    by (simp add: sampleWorld_def)
  show ?thesis
    using FileFromPath_result [of "sampleWorld [''/repo/a.txt''] []" "''/repo/missing.txt''"]
      FileFromPath_result [of "sampleWorld [''/repo/a.txt''] []" "''/repo/a.txt''"]
      e1 e2 c n
    by metis
qed

section \<open>Facts about the artifacts document\<close>

lemma stampPackages_stamped:
  "list_all (stampedFor version) (Packages (stampPackages version doc))"
  by (simp add: stampPackages_def list_all_iff stampedFor_def list_ex_iff
      Package_AddRelationship_def sourceRelationship_def)

lemma stampPackages_ExternalDocRefs:
  "ExternalDocRefs (stampPackages version doc) = ExternalDocRefs doc"
  by (simp add: stampPackages_def)

lemma ReadSourceFile_extRef:
  "ExternalDocumentRef_ReadSourceFile sw x path = Inr y \<Longrightarrow> ID y = ID x \<and> URI y = URI x"
  by (auto simp: ExternalDocumentRef_ReadSourceFile_def split: sum.splits)

text \<open>
  C6. Whenever \<open>GenerateVersionArtifactsBOM\<close> reaches \<open>doc.Write\<close>, every package of
  the document it writes carries a relationship of type \<open>GENERATED_FROM\<close> whose external
  peer reference is \<open>kubernetes-<version>\<close>, the identifier under which the same
  document declares the source-tree document of the version as an external document
  reference.
\<close>

theorem written_document_stamped:
  assumes "GenerateVersionArtifactsBOM sw w version = (r, Some (doc, path))"
  shows "list_all (stampedFor version) (Packages doc) \<and> declaresSource version doc
         \<and> path = Join w [TempDir w, ''release-bom-'' @ version @ ''.spdx'']"
proof -
  let ?ref = "\<lparr>ID = ''kubernetes-'' @ version,
               URI = ''https://sbom.k8s.io/'' @ version @ ''/source'', Checksums = []\<rparr>"
  from assms obtain doc0 extRef where
    x: "ExternalDocumentRef_ReadSourceFile sw ?ref
          (Join w [TempDir w, ''source-bom-'' @ version @ ''.spdx'']) = Inr extRef"
    and d: "doc = stampPackages version (doc0\<lparr>ExternalDocRefs := ExternalDocRefs doc0 @ [extRef]\<rparr>)"
    and p: "path = Join w [TempDir w, ''release-bom-'' @ version @ ''.spdx'']"
    by (auto simp: GenerateVersionArtifactsBOM_def Let_def split: sum.splits option.splits)
  have "ID extRef = ''kubernetes-'' @ version
        \<and> URI extRef = ''https://sbom.k8s.io/'' @ version @ ''/source''"
    using ReadSourceFile_extRef [OF x] by simp
  then have "declaresSource version doc"
    by (simp add: d declaresSource_def stampPackages_ExternalDocRefs)
  moreover have "list_all (stampedFor version) (Packages doc)"
    unfolding d by (rule stampPackages_stamped)
  ultimately show ?thesis using p by simp
qed

text \<open>
  The document is written whenever the steps before the stamping succeed.
\<close>

lemma writes_when_all_succeed:
  assumes "ListImageArchives sw version = Inr images"
    and "BuildBaseArtifactsSBOM sw
           \<lparr>Gen_Name = ''Kubernetes Release '' @ version, Gen_AnalyseLayers = False,
            Gen_OnlyDirectDeps = False, Gen_License = LicenseIdentifier sw,
            Gen_Namespace = ''https://sbom.k8s.io/'' @ version @ ''/release'',
            Gen_ScanLicenses = False, Gen_Tarballs = images,
            Gen_OutputFile = Join w []\<rparr> = Inr doc0"
    and "AddBinariesToSBOM sw w doc0 version = Inr doc1"
    and "AddTarfilesToSBOM sw w doc1 version = Inr doc2"
    and "extRef_checksums sw (Join w [TempDir w, ''source-bom-'' @ version @ ''.spdx''])
           = Inr cs"
  shows "\<exists>r doc path. GenerateVersionArtifactsBOM sw w version = (r, Some (doc, path))
           \<and> map Package_Name (Packages doc) = map Package_Name (Packages doc2)"
  using assms
  by (auto simp: GenerateVersionArtifactsBOM_def ExternalDocumentRef_ReadSourceFile_def
      Let_def stampPackages_def Package_AddRelationship_def comp_def split: option.splits)

lemma sampleStage_run:
  "GenerateVersionArtifactsBOM sampleStageWorld (sampleWorld [] []) ''v1.22.0''
     = (None, Some (sampleArtifactsDocument, ''/tmp/release-bom-v1.22.0.spdx''))"
  by (simp add: GenerateVersionArtifactsBOM_def BuildBaseArtifactsSBOM_def
      AddBinariesToSBOM_def AddTarfilesToSBOM_def Document_AddFile_def relateLastFile_def
      File_AddRelationship_def ExternalDocumentRef_ReadSourceFile_def stampPackages_def
      Package_AddRelationship_def sourceRelationship_def GENERATED_FROM_def
      ReadSourceFile_def sampleStageWorld_def sampleWorld_def sampleJoin_def sampleBase_def
      sampleFile_def
      sampleArtifactsDocument_def Let_def)

text \<open>
  C6, witness: a base document with two image packages, one binary and one tarball.
\<close>

theorem written_document_stamped_witness:
  "GenerateVersionArtifactsBOM sampleStageWorld (sampleWorld [] []) ''v1.22.0''
     = (None, Some (sampleArtifactsDocument, ''/tmp/release-bom-v1.22.0.spdx''))
   \<and> map Package_Name (Packages sampleArtifactsDocument) = [''kube-apiserver'', ''kube-proxy'']
   \<and> list_all (stampedFor ''v1.22.0'') (Packages sampleArtifactsDocument)
   \<and> declaresSource ''v1.22.0'' sampleArtifactsDocument"
  using written_document_stamped [OF sampleStage_run] sampleStage_run
  by (simp add: sampleArtifactsDocument_def)


end
